theory Spec2Isabelle
  imports Main
begin

section \<open>Data model of the thermal manager (modules/thermalmanager.c)\<close>

text \<open>
  The header \<^verbatim>\<open>thermalmanager.h\<close> is not part of the sources at hand; the types below
  are read off the way \<^verbatim>\<open>thermalmanager.c\<close> uses them.

  \<^verbatim>\<open>THERMAL_STATUS\<close> is an enumeration with the four members used in the file and
  \<^verbatim>\<open>THERMAL_STATUS_COUNT\<close> of them. The array \<^verbatim>\<open>thermal_status_name\<close> fixes their
  order: normal, warning, alert, fatal.
\<close>

datatype THERMAL_STATUS =
    THERMAL_STATUS_NORMAL
  | THERMAL_STATUS_WARNING
  | THERMAL_STATUS_ALERT
  | THERMAL_STATUS_FATAL

text \<open>The integer value of an enumerator; the C comparisons on statuses compare these.\<close>

fun status_index :: "THERMAL_STATUS \<Rightarrow> nat" where
  "status_index THERMAL_STATUS_NORMAL = 0"
| "status_index THERMAL_STATUS_WARNING = 1"
| "status_index THERMAL_STATUS_ALERT = 2"
| "status_index THERMAL_STATUS_FATAL = 3"

instantiation THERMAL_STATUS :: linorder
begin

definition less_eq_THERMAL_STATUS :: "THERMAL_STATUS \<Rightarrow> THERMAL_STATUS \<Rightarrow> bool" where
  "less_eq_THERMAL_STATUS a b \<longleftrightarrow> status_index a \<le> status_index b"

definition less_THERMAL_STATUS :: "THERMAL_STATUS \<Rightarrow> THERMAL_STATUS \<Rightarrow> bool" where
  "less_THERMAL_STATUS a b \<longleftrightarrow> status_index a < status_index b"

instance
proof
  fix x y z :: THERMAL_STATUS
  show "(x < y) = (x \<le> y \<and> \<not> y \<le> x)"
    by (auto simp: less_eq_THERMAL_STATUS_def less_THERMAL_STATUS_def)
  show "x \<le> x"
    by (simp add: less_eq_THERMAL_STATUS_def)
  show "x \<le> y \<Longrightarrow> y \<le> z \<Longrightarrow> x \<le> z"
    by (simp add: less_eq_THERMAL_STATUS_def)
  show "x \<le> y \<Longrightarrow> y \<le> x \<Longrightarrow> x = y"
    by (cases x; cases y; simp add: less_eq_THERMAL_STATUS_def)
  show "x \<le> y \<or> y \<le> x"
    by (auto simp: less_eq_THERMAL_STATUS_def)
qed

end

text \<open>
  \<^verbatim>\<open>--new_status\<close> and \<^verbatim>\<open>++new_status\<close>. The loops that use them guard the
  decrement with \<^verbatim>\<open>new_status > THERMAL_STATUS_NORMAL\<close> and the increment with
  \<^verbatim>\<open>new_status < THERMAL_STATUS_FATAL\<close>, so the first equation of each function is
  never reached from the code.
\<close>

fun status_decrement :: "THERMAL_STATUS \<Rightarrow> THERMAL_STATUS" where
  "status_decrement THERMAL_STATUS_NORMAL = THERMAL_STATUS_NORMAL"
| "status_decrement THERMAL_STATUS_WARNING = THERMAL_STATUS_NORMAL"
| "status_decrement THERMAL_STATUS_ALERT = THERMAL_STATUS_WARNING"
| "status_decrement THERMAL_STATUS_FATAL = THERMAL_STATUS_ALERT"

fun status_increment :: "THERMAL_STATUS \<Rightarrow> THERMAL_STATUS" where
  "status_increment THERMAL_STATUS_FATAL = THERMAL_STATUS_FATAL"
| "status_increment THERMAL_STATUS_ALERT = THERMAL_STATUS_FATAL"
| "status_increment THERMAL_STATUS_WARNING = THERMAL_STATUS_ALERT"
| "status_increment THERMAL_STATUS_NORMAL = THERMAL_STATUS_WARNING"

text \<open>
  \<^verbatim>\<open>thermal_status_configuration_t\<close>: the four \<^verbatim>\<open>int\<close> members \<^verbatim>\<open>min\<close>, \<^verbatim>\<open>max\<close>,
  \<^verbatim>\<open>mintime\<close>, \<^verbatim>\<open>maxtime\<close>. The first two are renamed, since \<open>min\<close> and \<open>max\<close> are
  constants of HOL. C's \<^verbatim>\<open>int\<close> is modelled by \<open>int\<close>. The division by 1000 of a
  value above 1000 and the subtraction of 273 from a value above 223 cannot leave the
  range of \<^verbatim>\<open>int\<close>; the addition of 10 to a poll interval can, and is written with
  its wrap-around (\<open>to_int\<close> below).
\<close>

record thermal_status_configuration_t =
  min_temp :: int
  max_temp :: int
  mintime :: int
  maxtime :: int

text \<open>
  \<^verbatim>\<open>thermal_object_configuration_t\<close>: the sensor's name, the array
  \<^verbatim>\<open>state[THERMAL_STATUS_COUNT]\<close> indexed by status (a function on the enumeration;
  the array is a member of the structure, so that assigning the structure copies it, as
  the specification's data model has it), and the function pointer
  \<^verbatim>\<open>request_temperature\<close>, kept as an opaque handle: what the sensor does when it is
  called is an input of \<open>send_temperature_request\<close> below.
\<close>

record thermal_object_configuration_t =
  name :: string
  state :: "THERMAL_STATUS \<Rightarrow> thermal_status_configuration_t"
  request_temperature :: nat

text \<open>
  \<^verbatim>\<open>thermal_object_t\<close>. In C the member \<^verbatim>\<open>conf\<close> is a pointer; the configuration is
  held by value here. It is written only by the tuning code, which runs on objects that
  registration has given a private copy of their configuration.
\<close>

record thermal_object_t =
  conf :: thermal_object_configuration_t
  status :: THERMAL_STATUS
  request_pending :: bool

section \<open>Classification of a reading (receive_temperature_response, lines 189-219)\<close>

text \<open>
  Lines 189-197, ``heuristics to convert to degrees C''. The division is C's truncating
  one; it is applied to values above 1000 only, where it agrees with \<open>div\<close>.
\<close>

definition convert_to_degrees_C :: "int \<Rightarrow> int" where
  "convert_to_degrees_C temperature =
     (let temperature = (if temperature > 1000 then temperature div 1000 else temperature)
      in if temperature > 223 then temperature - 273 else temperature)"

text \<open>The two \<^verbatim>\<open>while\<close> loops of lines 208-212 and 214-218.\<close>

function lower_status ::
  "int \<Rightarrow> (THERMAL_STATUS \<Rightarrow> thermal_status_configuration_t) \<Rightarrow> THERMAL_STATUS \<Rightarrow> THERMAL_STATUS"
where
  "lower_status temperature st new_status =
     (if new_status > THERMAL_STATUS_NORMAL \<and> temperature < min_temp (st new_status)
      then lower_status temperature st (status_decrement new_status)
      else new_status)"
  by pat_completeness auto
termination
proof (relation "measure (\<lambda>(t, st, s). status_index s)")
  fix temperature :: int and new_status :: THERMAL_STATUS
    and st :: "THERMAL_STATUS \<Rightarrow> thermal_status_configuration_t"
  assume "new_status > THERMAL_STATUS_NORMAL \<and> temperature < min_temp (st new_status)"
  then show "((temperature, st, status_decrement new_status), (temperature, st, new_status))
      \<in> measure (\<lambda>(t, st, s). status_index s)"
    by (cases new_status) (simp_all add: less_THERMAL_STATUS_def)
qed simp

function raise_status ::
  "int \<Rightarrow> (THERMAL_STATUS \<Rightarrow> thermal_status_configuration_t) \<Rightarrow> THERMAL_STATUS \<Rightarrow> THERMAL_STATUS"
where
  "raise_status temperature st new_status =
     (if new_status < THERMAL_STATUS_FATAL \<and> temperature > max_temp (st new_status)
      then raise_status temperature st (status_increment new_status)
      else new_status)"
  by pat_completeness auto
termination
proof (relation "measure (\<lambda>(t, st, s). 3 - status_index s)")
  fix temperature :: int and new_status :: THERMAL_STATUS
    and st :: "THERMAL_STATUS \<Rightarrow> thermal_status_configuration_t"
  assume "new_status < THERMAL_STATUS_FATAL \<and> temperature > max_temp (st new_status)"
  then show "((temperature, st, status_increment new_status), (temperature, st, new_status))
      \<in> measure (\<lambda>(t, st, s). 3 - status_index s)"
    by (cases new_status) (simp_all add: less_THERMAL_STATUS_def)
qed simp

declare lower_status.simps [simp del]
declare raise_status.simps [simp del]

text \<open>Lines 206-219: ``figure out the new thermal object status based on the temperature''.\<close>

definition figure_out_new_status ::
  "int \<Rightarrow> (THERMAL_STATUS \<Rightarrow> thermal_status_configuration_t) \<Rightarrow> THERMAL_STATUS \<Rightarrow> THERMAL_STATUS"
where
  "figure_out_new_status temperature st new_status =
     (if temperature < min_temp (st new_status) then lower_status temperature st new_status
      else if temperature > max_temp (st new_status) then raise_status temperature st new_status
      else new_status)"

text \<open>
  Lines 189-219 as a function of the raw reading: the Classifier of the specification.
\<close>

definition classify ::
  "int \<Rightarrow> (THERMAL_STATUS \<Rightarrow> thermal_status_configuration_t) \<Rightarrow> THERMAL_STATUS \<Rightarrow> THERMAL_STATUS"
where
  "classify temperature st new_status =
     figure_out_new_status (convert_to_degrees_C temperature) st new_status"

section \<open>Module state and what the module sends\<close>

text \<open>
  What the module does to the outside, in the order it does it: the D-Bus signal
  \<^verbatim>\<open>thermalmanager_state_change_ind\<close> with its string argument, the internal
  broadcast of \<^verbatim>\<open>DSM_MSGTYPE_SET_THERMAL_STATE\<close> with its member \<^verbatim>\<open>overheated\<close>, a
  call of a sensor's \<^verbatim>\<open>request_temperature\<close> for the object at an address, and the
  internal broadcast of \<^verbatim>\<open>DSM_MSGTYPE_WAIT\<close> with \<^verbatim>\<open>req.mintime\<close>,
  \<^verbatim>\<open>req.maxtime\<close> and \<^verbatim>\<open>data\<close>. The message types are declared outside the file;
  their members are taken to hold the values assigned to them. Calls of \<^verbatim>\<open>dsme_log\<close>
  are left out: they change nothing of the module's state.
\<close>

datatype event =
    Dbus_signal string
  | Set_thermal_state bool
  | Request_temperature nat
  | Wait int int nat

text \<open>
  The file's static variables, and the memory that holds thermal objects: \<open>heap\<close> maps
  an address to the object stored there, \<open>thermal_objects\<close> is the \<^verbatim>\<open>GSList\<close> of
  object pointers, \<open>overheated\<close> is the static variable of
  \<^verbatim>\<open>send_thermal_indication\<close>. A build without \<^verbatim>\<open>DSME_THERMAL_TUNING\<close> has no
  \<^verbatim>\<open>is_in_ta_test\<close>: it behaves as this model does while the flag is \<open>False\<close>.
\<close>

record module_state =
  heap :: "nat \<Rightarrow> thermal_object_t option"
  thermal_objects :: "nat list"
  current_status :: THERMAL_STATUS
  overheated :: bool
  is_in_ta_test :: bool
  events :: "event list"

text \<open>
  Reading through a pointer. The null pointer and an address that holds no object
  cannot be read: C leaves that undefined, the model returns \<open>None\<close>, and every function
  that reads through a pointer returns \<open>None\<close> with it.
\<close>

definition NULL :: nat where
  "NULL = 0"

definition deref :: "module_state \<Rightarrow> nat \<Rightarrow> thermal_object_t option" where
  "deref s p = (if p = NULL then None else heap s p)"

definition emit :: "event \<Rightarrow> module_state \<Rightarrow> module_state" where
  "emit e s = s\<lparr>events := events s @ [e]\<rparr>"

fun thermal_status_name :: "THERMAL_STATUS \<Rightarrow> string" where
  "thermal_status_name THERMAL_STATUS_NORMAL = ''normal''"
| "thermal_status_name THERMAL_STATUS_WARNING = ''warning''"
| "thermal_status_name THERMAL_STATUS_ALERT = ''alert''"
| "thermal_status_name THERMAL_STATUS_FATAL = ''fatal''"

definition current_status_name :: "module_state \<Rightarrow> string" where
  "current_status_name s = thermal_status_name (current_status s)"

text \<open>The loop of \<^verbatim>\<open>worst_current_thermal_object_status\<close> over the list nodes.\<close>

fun worst_status_loop ::
  "module_state \<Rightarrow> nat list \<Rightarrow> THERMAL_STATUS \<Rightarrow> THERMAL_STATUS option" where
  "worst_status_loop s [] status' = Some status'"
| "worst_status_loop s (node # rest) status' =
     (case deref s node of
        None \<Rightarrow> None
      | Some ob \<Rightarrow>
          worst_status_loop s rest (if status ob > status' then status ob else status'))"

definition worst_current_thermal_object_status :: "module_state \<Rightarrow> THERMAL_STATUS option" where
  "worst_current_thermal_object_status s =
     worst_status_loop s (thermal_objects s) THERMAL_STATUS_NORMAL"

definition send_overheat_status :: "bool \<Rightarrow> module_state \<Rightarrow> module_state" where
  "send_overheat_status overheated' s = emit (Set_thermal_state overheated') s"

definition send_thermal_indication :: "module_state \<Rightarrow> module_state" where
  "send_thermal_indication s =
     (let s = emit (Dbus_signal (current_status_name s)) s
      in if current_status s = THERMAL_STATUS_FATAL
         then (send_overheat_status True s)\<lparr>overheated := True\<rparr>
         else if overheated s
         then (send_overheat_status False s)\<lparr>overheated := False\<rparr>
         else s)"

section \<open>Thermal tuning (the code under DSME_THERMAL_TUNING)\<close>

text \<open>
  A value stored in an \<^verbatim>\<open>int\<close> of 32 bits: C leaves a signed overflow undefined, the
  compiled code wraps around.
\<close>

definition to_int :: "int \<Rightarrow> int" where
  "to_int x = (x + 2147483648) mod 4294967296 - 2147483648"

text \<open>
  The tuning file is read with \<^verbatim>\<open>fscanf(f, "%d, %d, %d", &min, &max, &mintime)\<close>, once
  per status. \<^verbatim>\<open>fscanf\<close> belongs to the C library and is modelled from the C standard's
  description of it, on the text of the file that is still to be read.

  The directive \<^verbatim>\<open>%d\<close> skips white space (\<^verbatim>\<open>isspace\<close>: space, tab, newline, vertical
  tab, form feed, carriage return), then takes an optional sign and the longest run of
  decimal digits; without a digit it fails. The number is converted as \<^verbatim>\<open>strtol\<close> does,
  which stops at the ends of the range of \<^verbatim>\<open>long\<close> (64 bits), and is then stored in the
  \<^verbatim>\<open>int\<close>. For a number outside the range of \<^verbatim>\<open>int\<close> the standard leaves the result
  undefined; the model stores what this conversion gives.
\<close>

definition isspace :: "char \<Rightarrow> bool" where
  "isspace c \<longleftrightarrow> c \<in> set [CHR '' '', CHR 0x09, CHR 0x0A, CHR 0x0B, CHR 0x0C, CHR 0x0D]"

definition isdigit :: "char \<Rightarrow> bool" where
  "isdigit c \<longleftrightarrow> c \<in> set ''0123456789''"

text \<open>The value of a digit, \<^verbatim>\<open>c - '0'\<close>.\<close>

definition digit_value :: "char \<Rightarrow> int" where
  "digit_value c = of_char c - of_char CHR ''0''"

fun decimal :: "int \<Rightarrow> string \<Rightarrow> int" where
  "decimal acc [] = acc"
| "decimal acc (c # cs) = decimal (10 * acc + digit_value c) cs"

definition to_long :: "int \<Rightarrow> int" where
  "to_long x = max (- 9223372036854775808) (min 9223372036854775807 x)"

definition scan_d :: "string \<Rightarrow> (int \<times> string) option" where
  "scan_d f =
     (let f = dropWhile isspace f;
          negative = (f \<noteq> [] \<and> hd f = CHR ''-'');
          f = (if f \<noteq> [] \<and> (hd f = CHR ''-'' \<or> hd f = CHR ''+'') then tl f else f);
          digits = takeWhile isdigit f;
          v = decimal 0 digits
      in if digits = [] then None
         else Some (to_int (to_long (if negative then - v else v)), dropWhile isdigit f))"

text \<open>
  The comma of the format matches a comma that comes next in the text, and nothing
  else; the space after it skips white space, as the \<^verbatim>\<open>%d\<close> that follows does anyway.
\<close>

definition match_comma :: "string \<Rightarrow> string option" where
  "match_comma f = (case f of [] \<Rightarrow> None | c # f' \<Rightarrow> if c = CHR '','' then Some f' else None)"

text \<open>
  The call: the number of integers converted and assigned (\<^verbatim>\<open>EOF\<close>, -1, when the text
  ends before the first of them), the structure member they were assigned to, and the
  text left. The caller compares the number with 3 only, and where fewer than three
  integers are converted it reads no further.
\<close>

definition fscanf ::
  "string \<Rightarrow> thermal_status_configuration_t
     \<Rightarrow> int \<times> thermal_status_configuration_t \<times> string" where
  "fscanf f c =
     (case scan_d f of
        None \<Rightarrow> (if dropWhile isspace f = [] then - 1 else 0, c, f)
      | Some (a, f) \<Rightarrow>
          let c = c\<lparr>min_temp := a\<rparr>
          in case Option.bind (match_comma f) scan_d of
               None \<Rightarrow> (1, c, f)
             | Some (b, f) \<Rightarrow>
                 let c = c\<lparr>max_temp := b\<rparr>
                 in case Option.bind (match_comma f) scan_d of
                      None \<Rightarrow> (2, c, f)
                    | Some (m, f) \<Rightarrow> (3, c\<lparr>mintime := m\<rparr>, f))"

text \<open>
  The \<^verbatim>\<open>for\<close> loop of \<^verbatim>\<open>thermal_object_config_read\<close> (lines 387-399) over the
  indices still to do, on \<^verbatim>\<open>new_config.state\<close>; it returns \<^verbatim>\<open>success\<close> and the
  array.
\<close>

fun config_read_loop ::
  "THERMAL_STATUS list \<Rightarrow> (THERMAL_STATUS \<Rightarrow> thermal_status_configuration_t) \<Rightarrow> string
     \<Rightarrow> bool \<times> (THERMAL_STATUS \<Rightarrow> thermal_status_configuration_t)" where
  "config_read_loop [] new_state f = (True, new_state)"
| "config_read_loop (i # rest) new_state f =
     (case fscanf f (new_state i) of
        (n, c, f') \<Rightarrow>
          if n \<noteq> 3 then (False, new_state(i := c))
          else config_read_loop rest
                 (new_state(i := c\<lparr>maxtime := to_int (mintime c + 10)\<rparr>)) f')"

definition thermal_object_config_read ::
  "thermal_object_configuration_t \<Rightarrow> string \<Rightarrow> bool \<times> thermal_object_configuration_t"
where
  "thermal_object_config_read config f =
     (case config_read_loop
             [THERMAL_STATUS_NORMAL, THERMAL_STATUS_WARNING, THERMAL_STATUS_ALERT,
              THERMAL_STATUS_FATAL]
             (state config) f of
        (success, new_state) \<Rightarrow>
          (success, if success then config\<lparr>state := new_state\<rparr> else config))"

text \<open>
  \<^verbatim>\<open>thermal_object_try_to_read_config\<close>: \<open>tuning_file\<close> is what \<^verbatim>\<open>fopen\<close> gives for
  the object's tuning file, its text, or \<open>None\<close> when it cannot be opened.
\<close>

definition thermal_object_try_to_read_config ::
  "string option \<Rightarrow> thermal_object_t \<Rightarrow> thermal_object_t" where
  "thermal_object_try_to_read_config tuning_file ob =
     (case tuning_file of
        Some f \<Rightarrow> ob\<lparr>conf := snd (thermal_object_config_read (conf ob) f)\<rparr>
      | None \<Rightarrow> ob)"

section \<open>Responses, polling and registration\<close>

definition receive_temperature_response ::
  "string option \<Rightarrow> nat \<Rightarrow> int \<Rightarrow> module_state \<Rightarrow> module_state option" where
  "receive_temperature_response tuning_file thermal_object temperature s =
     (case deref s thermal_object of
        None \<Rightarrow> None
      | Some ob \<Rightarrow>
          let ob = ob\<lparr>request_pending := False\<rparr>;
              s = s\<lparr>heap := (heap s)(thermal_object \<mapsto> ob)\<rparr>
          in if temperature = - 1 then Some s
             else
               let previous_status = status ob;
                   new_status = status ob;
                   ob = (if is_in_ta_test s
                         then thermal_object_try_to_read_config tuning_file ob else ob);
                   new_status = classify temperature (state (conf ob)) new_status;
                   ob = ob\<lparr>status := new_status\<rparr>;
                   s = s\<lparr>heap := (heap s)(thermal_object \<mapsto> ob)\<rparr>
               in if new_status \<noteq> previous_status
                  then
                    (case worst_current_thermal_object_status s of
                       None \<Rightarrow> None
                     | Some worst \<Rightarrow>
                         let previously_indicated_status = current_status s;
                             s = s\<lparr>current_status := worst\<rparr>
                         in if current_status s \<noteq> previously_indicated_status
                            then Some (send_thermal_indication s)
                            else Some s)
                  else Some s)"

text \<open>
  The sensor's \<^verbatim>\<open>request_temperature\<close> is outside the file. It is handed the object and
  the callback \<^verbatim>\<open>receive_temperature_response\<close>, and returns whether it accepted the
  request. A sensor that answers asynchronously returns first, and the completion arrives
  later as a call of the callback of its own; a sensor may also run the callback on the
  object before it returns. \<open>completed\<close> holds the temperature it then delivers (and the
  tuning file the callback finds), \<open>accepted\<close> is what it returns.
\<close>

record sensor_answer =
  completed :: "(string option \<times> int) option"
  accepted :: bool

definition call_request_temperature ::
  "sensor_answer \<Rightarrow> nat \<Rightarrow> module_state \<Rightarrow> module_state option" where
  "call_request_temperature answer thermal_object s =
     (let s = emit (Request_temperature thermal_object) s
      in case completed answer of
           None \<Rightarrow> Some s
         | Some (tuning_file, temperature) \<Rightarrow>
             receive_temperature_response tuning_file thermal_object temperature s)"

definition send_temperature_request ::
  "sensor_answer \<Rightarrow> nat \<Rightarrow> module_state \<Rightarrow> module_state option" where
  "send_temperature_request answer thermal_object s =
     (case deref s thermal_object of
        None \<Rightarrow> None
      | Some ob \<Rightarrow>
          if \<not> request_pending ob
          then
            let s = s\<lparr>heap := (heap s)(thermal_object \<mapsto> ob\<lparr>request_pending := True\<rparr>)\<rparr>
            in case call_request_temperature answer thermal_object s of
                 None \<Rightarrow> None
               | Some s \<Rightarrow>
                   if \<not> accepted answer
                   then
                     (case deref s thermal_object of
                        None \<Rightarrow> None
                      | Some ob \<Rightarrow>
                          Some (s\<lparr>heap := (heap s)
                                  (thermal_object \<mapsto> ob\<lparr>request_pending := False\<rparr>)\<rparr>))
                   else Some s
          else Some s)"

definition thermal_object_polling_interval_expired ::
  "sensor_answer \<Rightarrow> nat \<Rightarrow> module_state \<Rightarrow> module_state option" where
  "thermal_object_polling_interval_expired answer thermal_object s =
     (case send_temperature_request answer thermal_object s of
        None \<Rightarrow> None
      | Some s \<Rightarrow>
          (case deref s thermal_object of
             None \<Rightarrow> None
           | Some ob \<Rightarrow>
               let c = state (conf ob) (status ob)
               in Some (emit (Wait (mintime c) (maxtime c) thermal_object) s)))"

text \<open>
  \<^verbatim>\<open>dsme_register_thermal_object\<close> as built without \<^verbatim>\<open>DSME_THERMAL_TUNING\<close>: the
  caller's object is appended and polled.
\<close>

definition dsme_register_thermal_object ::
  "sensor_answer \<Rightarrow> nat \<Rightarrow> module_state \<Rightarrow> module_state option" where
  "dsme_register_thermal_object answer thermal_object s =
     thermal_object_polling_interval_expired answer thermal_object
       (s\<lparr>thermal_objects := thermal_objects s @ [thermal_object]\<rparr>)"

text \<open>
  With \<^verbatim>\<open>DSME_THERMAL_TUNING\<close>, registration works on a copy. \<open>alloc\<close> says how the two
  calls of \<^verbatim>\<open>malloc\<close> went: the address of the new object, or \<open>None\<close> when one of them
  failed; then \<^verbatim>\<open>thermal_object_copy\<close> returns the null pointer, which registration
  appends and polls all the same.
\<close>

definition thermal_object_copy ::
  "nat option \<Rightarrow> nat \<Rightarrow> module_state \<Rightarrow> (nat \<times> module_state) option" where
  "thermal_object_copy alloc thermal_object s =
     (case alloc of
        None \<Rightarrow> Some (NULL, s)
      | Some copy_object \<Rightarrow>
          (case deref s thermal_object of
             None \<Rightarrow> None
           | Some ob \<Rightarrow> Some (copy_object, s\<lparr>heap := (heap s)(copy_object \<mapsto> ob)\<rparr>)))"

definition dsme_register_thermal_object_tuning ::
  "nat option \<Rightarrow> sensor_answer \<Rightarrow> nat \<Rightarrow> module_state \<Rightarrow> module_state option" where
  "dsme_register_thermal_object_tuning alloc answer thermal_object s =
     (case thermal_object_copy alloc thermal_object s of
        None \<Rightarrow> None
      | Some (thermal_object, s) \<Rightarrow>
          thermal_object_polling_interval_expired answer thermal_object
            (s\<lparr>thermal_objects := thermal_objects s @ [thermal_object]\<rparr>))"

text \<open>The handlers of \<^verbatim>\<open>DSM_MSGTYPE_WAKEUP\<close> (with \<^verbatim>\<open>msg->data\<close>) and
  \<^verbatim>\<open>DSM_MSGTYPE_SET_TA_TEST_MODE\<close>.\<close>

definition handle_DSM_MSGTYPE_WAKEUP ::
  "sensor_answer \<Rightarrow> nat \<Rightarrow> module_state \<Rightarrow> module_state option" where
  "handle_DSM_MSGTYPE_WAKEUP answer data s =
     (case deref s data of
        None \<Rightarrow> None
      | Some ob \<Rightarrow> thermal_object_polling_interval_expired answer data s)"

definition handle_DSM_MSGTYPE_SET_TA_TEST_MODE :: "module_state \<Rightarrow> module_state" where
  "handle_DSM_MSGTYPE_SET_TA_TEST_MODE s = s\<lparr>is_in_ta_test := True\<rparr>"

section \<open>The temp reaper (modules/tempreaper.c)\<close>

text \<open>
  The module's state is \<^verbatim>\<open>reaper_pid\<close>; \<open>calls\<close> records, in order, the calls of
  \<^verbatim>\<open>fork\<close> and of \<^verbatim>\<open>g_child_watch_add\<close> (with the watched pid).
\<close>

datatype reaper_call =
    Fork
  | Child_watch_add int

record tempreaper_state =
  reaper_pid :: int
  calls :: "reaper_call list"

text \<open>
  \<^verbatim>\<open>reaper_process_new\<close>: \<open>pid\<close> is what \<^verbatim>\<open>fork\<close> returns. In the child (0) the
  function does not return: every path ends in \<^verbatim>\<open>_exit\<close> or \<^verbatim>\<open>execv\<close>.
\<close>

definition reaper_process_new ::
  "int \<Rightarrow> tempreaper_state \<Rightarrow> (int \<times> tempreaper_state) option" where
  "reaper_process_new pid s =
     (let s = s\<lparr>calls := calls s @ [Fork]\<rparr>
      in if pid = 0 then None else Some (pid, s))"

definition temp_reaper_finished :: "tempreaper_state \<Rightarrow> tempreaper_state" where
  "temp_reaper_finished s = s\<lparr>reaper_pid := - 1\<rparr>"

text \<open>
  \<^verbatim>\<open>strcmp(mount_path, "/") == 0\<close>, where \<^verbatim>\<open>mount_path\<close> is the C string that
  \<^verbatim>\<open>DSMEMSG_EXTRA\<close> finds in the message. The macro is outside the file; the handler
  is modelled for messages that carry a mount path.
\<close>

definition disk_space_running_out :: "string \<Rightarrow> bool" where
  "disk_space_running_out mount_path = (mount_path = ''/'')"

definition handle_DSM_MSGTYPE_DISK_SPACE ::
  "int \<Rightarrow> string \<Rightarrow> tempreaper_state \<Rightarrow> tempreaper_state option" where
  "handle_DSM_MSGTYPE_DISK_SPACE pid mount_path s =
     (if reaper_pid s \<noteq> - 1 then Some s
      else if disk_space_running_out mount_path
      then
        (case reaper_process_new pid s of
           None \<Rightarrow> None
         | Some (new_pid, s) \<Rightarrow>
             let s = s\<lparr>reaper_pid := new_pid\<rparr>
             in if reaper_pid s \<noteq> - 1
                then Some (s\<lparr>calls := calls s @ [Child_watch_add (reaper_pid s)]\<rparr>)
                else Some s)
      else Some s)"

section \<open>The specification's wording, and what the theorems observe\<close>

text \<open>
  The Classifier as the specification words it (section 4.1): two normalisation rules
  in order, then ``while the normalized temperature is below \<^verbatim>\<open>config[band].min\<close> and
  \<^verbatim>\<open>band > Normal\<close>, decrement \<^verbatim>\<open>band\<close>; while above \<^verbatim>\<open>config[band].max\<close> and
  \<^verbatim>\<open>band < Fatal\<close>, increment \<^verbatim>\<open>band\<close>''.
\<close>

definition spec_normalize :: "int \<Rightarrow> int" where
  "spec_normalize raw_reading =
     (let v = (if raw_reading > 1000 then raw_reading div 1000 else raw_reading)
      in if v > 223 then v - 273 else v)"

function spec_decrement_while ::
  "int \<Rightarrow> (THERMAL_STATUS \<Rightarrow> thermal_status_configuration_t) \<Rightarrow> THERMAL_STATUS \<Rightarrow> THERMAL_STATUS"
where
  "spec_decrement_while t config band =
     (if t < min_temp (config band) \<and> band > THERMAL_STATUS_NORMAL
      then spec_decrement_while t config (status_decrement band)
      else band)"
  by pat_completeness auto
termination
proof (relation "measure (\<lambda>(t, config, band). status_index band)")
  fix t :: int and band :: THERMAL_STATUS
    and config :: "THERMAL_STATUS \<Rightarrow> thermal_status_configuration_t"
  assume "t < min_temp (config band) \<and> band > THERMAL_STATUS_NORMAL"
  then show "((t, config, status_decrement band), (t, config, band))
      \<in> measure (\<lambda>(t, config, band). status_index band)"
    by (cases band) (simp_all add: less_THERMAL_STATUS_def)
qed simp

function spec_increment_while ::
  "int \<Rightarrow> (THERMAL_STATUS \<Rightarrow> thermal_status_configuration_t) \<Rightarrow> THERMAL_STATUS \<Rightarrow> THERMAL_STATUS"
where
  "spec_increment_while t config band =
     (if t > max_temp (config band) \<and> band < THERMAL_STATUS_FATAL
      then spec_increment_while t config (status_increment band)
      else band)"
  by pat_completeness auto
termination
proof (relation "measure (\<lambda>(t, config, band). 3 - status_index band)")
  fix t :: int and band :: THERMAL_STATUS
    and config :: "THERMAL_STATUS \<Rightarrow> thermal_status_configuration_t"
  assume "t > max_temp (config band) \<and> band < THERMAL_STATUS_FATAL"
  then show "((t, config, status_increment band), (t, config, band))
      \<in> measure (\<lambda>(t, config, band). 3 - status_index band)"
    by (cases band) (simp_all add: less_THERMAL_STATUS_def)
qed simp

declare spec_decrement_while.simps [simp del]
declare spec_increment_while.simps [simp del]

definition spec_classify ::
  "int \<Rightarrow> THERMAL_STATUS \<Rightarrow> (THERMAL_STATUS \<Rightarrow> thermal_status_configuration_t) \<Rightarrow> THERMAL_STATUS"
where
  "spec_classify raw_reading current_band config =
     (let t = spec_normalize raw_reading;
          band = spec_decrement_while t config current_band
      in spec_increment_while t config band)"

text \<open>
  The specification's invariant on a configuration (section 3): every band's range is
  not empty, and the next band's \<open>min\<close> ties to the band's \<open>max\<close>: it is that value or
  the one after it.
\<close>

definition contiguous_increasing ::
  "(THERMAL_STATUS \<Rightarrow> thermal_status_configuration_t) \<Rightarrow> bool" where
  "contiguous_increasing config \<longleftrightarrow>
     list_all (\<lambda>b. min_temp (config b) \<le> max_temp (config b))
       [THERMAL_STATUS_NORMAL, THERMAL_STATUS_WARNING, THERMAL_STATUS_ALERT,
        THERMAL_STATUS_FATAL] \<and>
     list_all (\<lambda>(b, b'). max_temp (config b) \<le> min_temp (config b') \<and>
                         min_temp (config b') \<le> max_temp (config b) + 1)
       [(THERMAL_STATUS_NORMAL, THERMAL_STATUS_WARNING),
        (THERMAL_STATUS_WARNING, THERMAL_STATUS_ALERT),
        (THERMAL_STATUS_ALERT, THERMAL_STATUS_FATAL)]"

text \<open>
  Which rules of the unit heuristics apply to a raw reading: none (0), the subtraction
  only (1), the division only (2), or both (3).
\<close>

definition unit_range :: "int \<Rightarrow> nat" where
  "unit_range raw =
     (if raw \<le> 223 then 0 else if raw \<le> 1000 then 1 else if raw < 224000 then 2 else 3)"

text \<open>The events a call has added, and the events of one kind among them.\<close>

definition new_events :: "module_state \<Rightarrow> module_state \<Rightarrow> event list" where
  "new_events s s' = drop (length (events s)) (events s')"

fun is_wait :: "event \<Rightarrow> bool" where
  "is_wait (Wait a b d) = True"
| "is_wait e = False"

fun is_dbus_signal :: "event \<Rightarrow> bool" where
  "is_dbus_signal (Dbus_signal n) = True"
| "is_dbus_signal e = False"

fun is_set_thermal_state :: "event \<Rightarrow> bool" where
  "is_set_thermal_state (Set_thermal_state b) = True"
| "is_set_thermal_state e = False"

fun is_request_temperature :: "event \<Rightarrow> bool" where
  "is_request_temperature (Request_temperature p) = True"
| "is_request_temperature e = False"

text \<open>The statuses of the registered objects, read through the list's pointers.\<close>

definition registered_statuses :: "module_state \<Rightarrow> THERMAL_STATUS list" where
  "registered_statuses s =
     List.map_filter (\<lambda>p. map_option status (deref s p)) (thermal_objects s)"

text \<open>Every pointer of the list points to an object.\<close>

definition registered_pointers_valid :: "module_state \<Rightarrow> bool" where
  "registered_pointers_valid s = list_all (\<lambda>q. deref s q \<noteq> None) (thermal_objects s)"








text \<open>The calls of the temp reaper that a handler has added.\<close>

definition new_calls :: "tempreaper_state \<Rightarrow> tempreaper_state \<Rightarrow> reaper_call list" where
  "new_calls s s' = drop (length (calls s)) (calls s')"

text \<open>
  Between two states: exactly one \<^verbatim>\<open>DSM_MSGTYPE_WAIT\<close> was added, it is tagged with the
  object, and it carries the \<open>mintime\<close> and \<open>maxtime\<close> of the object's band in the later
  state.
\<close>

definition rearmed :: "nat \<Rightarrow> module_state \<Rightarrow> module_state \<Rightarrow> bool" where
  "rearmed p s s' =
     (case deref s' p of
        None \<Rightarrow> False
      | Some ob \<Rightarrow>
          filter is_wait (new_events s s') =
            [Wait (mintime (state (conf ob) (status ob)))
                  (maxtime (state (conf ob) (status ob))) p])"

section \<open>A configuration and states to compute with\<close>

text \<open>
  The ladder of the specification's section 8: Normal 0 to 39, Warning 40 to 59, Alert 60
  to 79, Fatal 80 to 999, with shorter poll intervals for hotter bands.
\<close>

fun ladder :: "THERMAL_STATUS \<Rightarrow> thermal_status_configuration_t" where
  "ladder THERMAL_STATUS_NORMAL = \<lparr>min_temp = 0, max_temp = 39, mintime = 55, maxtime = 60\<rparr>"
| "ladder THERMAL_STATUS_WARNING = \<lparr>min_temp = 40, max_temp = 59, mintime = 30, maxtime = 35\<rparr>"
| "ladder THERMAL_STATUS_ALERT = \<lparr>min_temp = 60, max_temp = 79, mintime = 10, maxtime = 15\<rparr>"
| "ladder THERMAL_STATUS_FATAL = \<lparr>min_temp = 80, max_temp = 999, mintime = 2, maxtime = 5\<rparr>"

definition battery_conf :: thermal_object_configuration_t where
  "battery_conf = \<lparr>name = ''battery'', state = ladder, request_temperature = 7\<rparr>"

definition thermal_object_at ::
  "THERMAL_STATUS \<Rightarrow> bool \<Rightarrow> thermal_object_t" where
  "thermal_object_at st pending = \<lparr>conf = battery_conf, status = st, request_pending = pending\<rparr>"

text \<open>One registered object, at address 1, Normal, with a reading under way.\<close>

definition one_sensor :: module_state where
  "one_sensor =
     \<lparr>heap = Map.empty(1 \<mapsto> thermal_object_at THERMAL_STATUS_NORMAL True),
      thermal_objects = [1],
      current_status = THERMAL_STATUS_NORMAL,
      overheated = False,
      is_in_ta_test = False,
      events = []\<rparr>"

text \<open>
  Two registered objects: the one at address 1 with a reading under way, the one at
  address 2 idle, at the two given statuses; the aggregate that was last indicated and
  the overheat flag are given too.
\<close>

definition two_sensors ::
  "THERMAL_STATUS \<Rightarrow> THERMAL_STATUS \<Rightarrow> THERMAL_STATUS \<Rightarrow> bool \<Rightarrow> module_state" where
  "two_sensors first second indicated flag =
     \<lparr>heap = Map.empty(1 \<mapsto> thermal_object_at first True,
                       2 \<mapsto> thermal_object_at second False),
      thermal_objects = [1, 2],
      current_status = indicated,
      overheated = flag,
      is_in_ta_test = False,
      events = []\<rparr>"

text \<open>
  The state after the reading \<open>t\<close> of the object at address 1 has completed, where the
  handler returns one; no tuning file is at hand.
\<close>

definition after_reading :: "int \<Rightarrow> module_state \<Rightarrow> module_state" where
  "after_reading t s = the (receive_temperature_response None 1 t s)"

text \<open>
  The state after a wake-up for the object at address 1, where the handler returns one.
\<close>

definition after_wakeup :: "sensor_answer \<Rightarrow> module_state \<Rightarrow> module_state" where
  "after_wakeup answer s = the (handle_DSM_MSGTYPE_WAKEUP answer 1 s)"

text \<open>The state after the object at address 1 has been registered, likewise.\<close>

definition after_registration :: "sensor_answer \<Rightarrow> module_state \<Rightarrow> module_state" where
  "after_registration answer s = the (dsme_register_thermal_object answer 1 s)"

text \<open>
  The state after the object at address 1 has been registered in the build with
  \<^verbatim>\<open>DSME_THERMAL_TUNING\<close>, its copy allocated at address 2.
\<close>

definition after_tuning_registration :: "sensor_answer \<Rightarrow> module_state \<Rightarrow> module_state" where
  "after_tuning_registration answer s =
     the (dsme_register_thermal_object_tuning (Some 2) answer 1 s)"

text \<open>
  Sensors: one that accepts the request and answers later, one that refuses, and one
  that delivers the temperature \<open>t\<close> before its request call returns.
\<close>

definition answers_later :: sensor_answer where
  "answers_later = \<lparr>completed = None, accepted = True\<rparr>"

definition refuses :: sensor_answer where
  "refuses = \<lparr>completed = None, accepted = False\<rparr>"

definition answers_at_once :: "int \<Rightarrow> sensor_answer" where
  "answers_at_once t = \<lparr>completed = Some (None, t), accepted = True\<rparr>"

text \<open>One registered object at address 1, Normal, idle.\<close>

definition idle_sensor :: module_state where
  "idle_sensor =
     \<lparr>heap = Map.empty(1 \<mapsto> thermal_object_at THERMAL_STATUS_NORMAL False),
      thermal_objects = [1],
      current_status = THERMAL_STATUS_NORMAL,
      overheated = False,
      is_in_ta_test = False,
      events = []\<rparr>"




text \<open>The temp reaper with no reaper process running, and with process 4711 running.\<close>

definition reaper_idle :: tempreaper_state where
  "reaper_idle = \<lparr>reaper_pid = - 1, calls = []\<rparr>"

definition reaper_running :: tempreaper_state where
  "reaper_running = \<lparr>reaper_pid = 4711, calls = []\<rparr>"

section \<open>The classifier\<close>

lemmas status_order_defs = less_THERMAL_STATUS_def less_eq_THERMAL_STATUS_def

text \<open>Each loop, started at a given status, unfolds to a chain of at most three tests.\<close>

lemma lower_status_unfold:
  "lower_status t st THERMAL_STATUS_NORMAL = THERMAL_STATUS_NORMAL"
  "lower_status t st THERMAL_STATUS_WARNING =
     (if t < min_temp (st THERMAL_STATUS_WARNING) then THERMAL_STATUS_NORMAL
      else THERMAL_STATUS_WARNING)"
  "lower_status t st THERMAL_STATUS_ALERT =
     (if t < min_temp (st THERMAL_STATUS_ALERT)
      then lower_status t st THERMAL_STATUS_WARNING else THERMAL_STATUS_ALERT)"
  "lower_status t st THERMAL_STATUS_FATAL =
     (if t < min_temp (st THERMAL_STATUS_FATAL)
      then lower_status t st THERMAL_STATUS_ALERT else THERMAL_STATUS_FATAL)"
  by (subst lower_status.simps,
      simp add: status_order_defs lower_status.simps [of _ _ THERMAL_STATUS_NORMAL])+

lemma raise_status_unfold:
  "raise_status t st THERMAL_STATUS_FATAL = THERMAL_STATUS_FATAL"
  "raise_status t st THERMAL_STATUS_ALERT =
     (if t > max_temp (st THERMAL_STATUS_ALERT) then THERMAL_STATUS_FATAL
      else THERMAL_STATUS_ALERT)"
  "raise_status t st THERMAL_STATUS_WARNING =
     (if t > max_temp (st THERMAL_STATUS_WARNING)
      then raise_status t st THERMAL_STATUS_ALERT else THERMAL_STATUS_WARNING)"
  "raise_status t st THERMAL_STATUS_NORMAL =
     (if t > max_temp (st THERMAL_STATUS_NORMAL)
      then raise_status t st THERMAL_STATUS_WARNING else THERMAL_STATUS_NORMAL)"
  by (subst raise_status.simps,
      simp add: status_order_defs raise_status.simps [of _ _ THERMAL_STATUS_FATAL])+

lemma lower_status_le: "lower_status t st s \<le> s"
  by (cases s) (auto simp: lower_status_unfold status_order_defs)

lemma raise_status_ge: "s \<le> raise_status t st s"
  by (cases s) (auto simp: raise_status_unfold status_order_defs)

text \<open>The specification's loops are the code's loops, with the two tests swapped.\<close>

lemma spec_decrement_while_eq: "spec_decrement_while t st s = lower_status t st s"
  by (induction t st s rule: lower_status.induct)
     (subst spec_decrement_while.simps, subst lower_status.simps, auto)

lemma spec_increment_while_eq: "spec_increment_while t st s = raise_status t st s"
  by (induction t st s rule: raise_status.induct)
     (subst spec_increment_while.simps, subst raise_status.simps, auto)

lemma spec_normalize_eq: "spec_normalize raw = convert_to_degrees_C raw"
  by (simp add: spec_normalize_def convert_to_degrees_C_def)

text \<open>
  The code runs one loop only, chosen by the first test; the specification words it as
  one loop after the other. On a configuration without gaps the second loop has nothing
  left to do after the first.
\<close>

lemma contiguous_refines:
  assumes "contiguous_increasing st"
  shows "raise_status t st (lower_status t st s) = figure_out_new_status t st s"
  using assms
  by (cases s)
     (auto simp: contiguous_increasing_def figure_out_new_status_def lower_status_unfold
        raise_status_unfold)

lemma spec_classify_eq:
  assumes "contiguous_increasing config"
  shows "spec_classify raw band config = classify raw config band"
  using contiguous_refines [OF assms]
  by (simp add: spec_classify_def classify_def spec_normalize_eq
      spec_decrement_while_eq spec_increment_while_eq)

lemma contiguous_nonempty:
  "contiguous_increasing config \<Longrightarrow> min_temp (config b) \<le> max_temp (config b)"
  by (cases b) (simp_all add: contiguous_increasing_def)

lemma classify_95: "classify 95 ladder THERMAL_STATUS_NORMAL = THERMAL_STATUS_FATAL"
  by (simp add: classify_def convert_to_degrees_C_def figure_out_new_status_def
      raise_status_unfold)

lemma figure_out_mono:
  "t1 \<le> t2 \<Longrightarrow> figure_out_new_status t1 st s \<le> figure_out_new_status t2 st s"
  by (cases s)
     (auto simp: figure_out_new_status_def lower_status_unfold raise_status_unfold
        status_order_defs)

lemma div_1000_small: "raw < 224000 \<Longrightarrow> (raw :: int) div 1000 \<le> 223"
  using zdiv_mono1 [of raw 223999 1000] by simp

lemma div_1000_large: "224000 \<le> raw \<Longrightarrow> 223 < (raw :: int) div 1000"
  using zdiv_mono1 [of 224000 raw 1000] by simp

text \<open>The four ranges of raw readings, told apart by which rules apply.\<close>

lemma convert_to_degrees_C_ranges:
  "convert_to_degrees_C raw =
     (if raw \<le> 223 then raw
      else if raw \<le> 1000 then raw - 273
      else if raw < 224000 then raw div 1000
      else raw div 1000 - 273)"
proof -
  consider "raw \<le> 223" | "223 < raw" "raw \<le> 1000" | "1000 < raw" "raw < 224000"
    | "224000 \<le> raw" by linarith
  then show ?thesis
  proof cases
    case 1
    then show ?thesis by (simp add: convert_to_degrees_C_def)
  next
    case 2
    then show ?thesis by (simp add: convert_to_degrees_C_def)
  next
    case 3
    with div_1000_small [of raw] show ?thesis by (simp add: convert_to_degrees_C_def)
  next
    case 4
    with div_1000_large [of raw] show ?thesis by (simp add: convert_to_degrees_C_def)
  qed
qed

lemma convert_1500000: "convert_to_degrees_C 1500000 = 1227"
  by (simp add: convert_to_degrees_C_def)

lemma convert_1500: "convert_to_degrees_C 1500 = 1"
  by (simp add: convert_to_degrees_C_def)

text \<open>
  On a configuration without gaps the loops stop only where neither of their tests holds
  any more.
\<close>

lemma figure_out_terminal:
  assumes "contiguous_increasing st"
  shows "(figure_out_new_status t st s = THERMAL_STATUS_NORMAL \<or>
      min_temp (st (figure_out_new_status t st s)) \<le> t) \<and>
    (figure_out_new_status t st s = THERMAL_STATUS_FATAL \<or>
      t \<le> max_temp (st (figure_out_new_status t st s)))"
  using assms
  by (cases s)
     (auto simp: contiguous_increasing_def figure_out_new_status_def lower_status_unfold
        raise_status_unfold)

text \<open>Within one range of raw readings the unit heuristics keep the order.\<close>

lemma convert_mono_in_range:
  assumes "r1 \<le> r2" and "unit_range r1 = unit_range r2"
  shows "convert_to_degrees_C r1 \<le> convert_to_degrees_C r2"
proof -
  have d: "r1 div 1000 \<le> r2 div 1000"
    using assms(1) by (simp add: zdiv_mono1)
  from assms d show ?thesis
    by (simp add: convert_to_degrees_C_ranges unit_range_def split: if_splits)
qed

text \<open>
  C1. On a configuration with contiguous increasing ranges, for every raw reading and
  starting band, the code's classification is the ratchet of the specification (decrement
  while below the band's min and above Normal, then increment while above the band's max
  and below Fatal, each test on the band just reached); it moves down only when the
  reading is below the starting band's min, up only when it is above its max, and not at
  all otherwise; the band it returns is the lowest one or has its min at or below the
  reading, and is the highest one or has its max at or above the reading. On the ladder
  of section 8 a reading of 95 takes Normal to Fatal in one call.
\<close>

theorem classification_is_ratchet:
  assumes "contiguous_increasing config"
  shows "classify raw config band = spec_classify raw band config \<and>
    (convert_to_degrees_C raw < min_temp (config band) \<longrightarrow> classify raw config band \<le> band) \<and>
    (convert_to_degrees_C raw > max_temp (config band) \<longrightarrow> band \<le> classify raw config band) \<and>
    (min_temp (config band) \<le> convert_to_degrees_C raw \<and>
     convert_to_degrees_C raw \<le> max_temp (config band) \<longrightarrow> classify raw config band = band) \<and>
    (classify raw config band = THERMAL_STATUS_NORMAL \<or>
     min_temp (config (classify raw config band)) \<le> convert_to_degrees_C raw) \<and>
    (classify raw config band = THERMAL_STATUS_FATAL \<or>
     convert_to_degrees_C raw \<le> max_temp (config (classify raw config band))) \<and>
    classify 95 ladder THERMAL_STATUS_NORMAL = THERMAL_STATUS_FATAL"
proof -
  let ?t = "convert_to_degrees_C raw"
  have refine: "classify raw config band = spec_classify raw band config"
    by (simp add: spec_classify_eq [OF assms])
  have nonempty: "min_temp (config band) \<le> max_temp (config band)"
    by (rule contiguous_nonempty [OF assms])
  have down: "?t < min_temp (config band) \<longrightarrow> classify raw config band \<le> band"
    by (simp add: classify_def figure_out_new_status_def lower_status_le)
  have up: "?t > max_temp (config band) \<longrightarrow> band \<le> classify raw config band"
    using nonempty by (simp add: classify_def figure_out_new_status_def raise_status_ge)
  have stay: "min_temp (config band) \<le> ?t \<and> ?t \<le> max_temp (config band)
      \<longrightarrow> classify raw config band = band"
    by (simp add: classify_def figure_out_new_status_def)
  have rest: "(classify raw config band = THERMAL_STATUS_NORMAL \<or>
       min_temp (config (classify raw config band)) \<le> ?t) \<and>
      (classify raw config band = THERMAL_STATUS_FATAL \<or>
       ?t \<le> max_temp (config (classify raw config band)))"
    using figure_out_terminal [OF assms, of ?t band] by (simp add: classify_def)
  from refine down up stay rest classify_95 show ?thesis by blast
qed

text \<open>
  The ladder is contiguous and increasing. There the reading 95 is above Normal's max
  and takes Normal to Fatal in both formulations, the reading 30 is below Alert's min and
  takes Alert down to Normal, and the reading 50 is within Warning's range and leaves
  Warning as it is.
\<close>

theorem classification_is_ratchet_witness:
  "contiguous_increasing ladder \<and>
   spec_classify 95 THERMAL_STATUS_NORMAL ladder = THERMAL_STATUS_FATAL \<and>
   max_temp (ladder THERMAL_STATUS_NORMAL) < convert_to_degrees_C 95 \<and>
   THERMAL_STATUS_NORMAL \<le> classify 95 ladder THERMAL_STATUS_NORMAL \<and>
   convert_to_degrees_C 30 < min_temp (ladder THERMAL_STATUS_ALERT) \<and>
   classify 30 ladder THERMAL_STATUS_ALERT \<le> THERMAL_STATUS_ALERT \<and>
   spec_classify 30 THERMAL_STATUS_ALERT ladder = THERMAL_STATUS_NORMAL \<and>
   min_temp (ladder THERMAL_STATUS_WARNING) \<le> convert_to_degrees_C 50 \<and>
   convert_to_degrees_C 50 \<le> max_temp (ladder THERMAL_STATUS_WARNING) \<and>
   classify 50 ladder THERMAL_STATUS_WARNING = THERMAL_STATUS_WARNING"
proof -
  have h: "contiguous_increasing ladder"
    by (simp add: contiguous_increasing_def)
  have t: "convert_to_degrees_C 95 = 95" "convert_to_degrees_C 30 = 30"
    "convert_to_degrees_C 50 = 50"
    by (simp_all add: convert_to_degrees_C_def)
  have c: "classify 30 ladder THERMAL_STATUS_ALERT = THERMAL_STATUS_NORMAL"
    by (simp add: classify_def t figure_out_new_status_def lower_status_unfold)
  from classification_is_ratchet [OF h, of 95 THERMAL_STATUS_NORMAL]
    classification_is_ratchet [OF h, of 30 THERMAL_STATUS_ALERT]
    classification_is_ratchet [OF h, of 50 THERMAL_STATUS_WARNING] h t c
  show ?thesis by auto
qed

text \<open>
  C2, as stated, fails: the raw reading 1500000 is divided to 1500 and then, being above
  223, lowered to 1227, while the raw reading 1500 is divided to 1 and left there. On
  the ladder, from Normal, the first is classified Fatal and the second Normal.
\<close>

theorem classifying_1500000_is_not_classifying_1500:
  "classify 1500000 ladder THERMAL_STATUS_NORMAL = THERMAL_STATUS_FATAL \<and>
   classify 1500 ladder THERMAL_STATUS_NORMAL = THERMAL_STATUS_NORMAL"
  by (simp add: classify_def convert_to_degrees_C_def figure_out_new_status_def
      raise_status_unfold)

text \<open>
  C2, amended. Normalisation applies the two rules in order, each at most once: a
  reading up to 223 is kept, one from 224 to 1000 loses 273, one from 1001 to 223999 is
  divided by 1000 and nothing else, one from 224000 on is divided by 1000 and then
  loses 273; this is the specification's wording of the rules. So for every starting
  band and configuration the raw reading 1500000 is classified as the temperature 1227
  (1500 after the division, taken as Kelvin), and the raw reading 1500 as the
  temperature 1.
\<close>

theorem normalization_two_rules_once:
  "convert_to_degrees_C raw =
     (if raw \<le> 223 then raw
      else if raw \<le> 1000 then raw - 273
      else if raw < 224000 then raw div 1000
      else raw div 1000 - 273) \<and>
   convert_to_degrees_C raw = spec_normalize raw \<and>
   classify 1500000 config band = figure_out_new_status 1227 config band \<and>
   classify 1500 config band = figure_out_new_status 1 config band"
  using convert_to_degrees_C_ranges [of raw]
  by (simp only: spec_normalize_eq classify_def convert_1500000 convert_1500 simp_thms)

text \<open>
  C9, as stated, fails: the raw readings 1000 and 50000 both move the ladder's Normal
  upwards, the smaller one (727 degrees, read as Kelvin) to Fatal and the larger one
  (50 degrees, read as millidegrees) to Warning.
\<close>

theorem raw_monotonicity_fails:
  "(1000 :: int) < 50000 \<and> contiguous_increasing ladder \<and>
   THERMAL_STATUS_NORMAL < classify 1000 ladder THERMAL_STATUS_NORMAL \<and>
   THERMAL_STATUS_NORMAL < classify 50000 ladder THERMAL_STATUS_NORMAL \<and>
   classify 50000 ladder THERMAL_STATUS_NORMAL < classify 1000 ladder THERMAL_STATUS_NORMAL"
  by (simp add: classify_def convert_to_degrees_C_def figure_out_new_status_def
      raise_status_unfold contiguous_increasing_def status_order_defs)

text \<open>
  C9, amended. Classification is monotone in the normalised temperature: for every two
  raw readings whose temperatures after unit normalisation are in order, from the same
  starting band and configuration, the resulting bands are in the same order (whatever
  the direction of movement, and for every configuration). In particular this holds for
  raw readings \<open>r1 < r2\<close> to which the same rules of the unit heuristics apply.
\<close>

theorem classification_monotone_in_degrees:
  "(convert_to_degrees_C r1 \<le> convert_to_degrees_C r2 \<longrightarrow>
      classify r1 config band \<le> classify r2 config band) \<and>
   (r1 < r2 \<and> unit_range r1 = unit_range r2 \<longrightarrow>
      classify r1 config band \<le> classify r2 config band)"
  using convert_mono_in_range [of r1 r2]
  by (simp add: classify_def figure_out_mono)

theorem classification_monotone_in_degrees_witness:
  "convert_to_degrees_C 30 \<le> convert_to_degrees_C 95 \<and>
   (30 :: int) < 95 \<and> unit_range 30 = unit_range 95 \<and>
   classify 30 ladder THERMAL_STATUS_NORMAL \<le> classify 95 ladder THERMAL_STATUS_NORMAL \<and>
   classify 30 ladder THERMAL_STATUS_NORMAL = THERMAL_STATUS_NORMAL \<and>
   classify 95 ladder THERMAL_STATUS_NORMAL = THERMAL_STATUS_FATAL"
proof -
  have h: "convert_to_degrees_C 30 \<le> convert_to_degrees_C 95"
    by (simp add: convert_to_degrees_C_def)
  have u: "unit_range 30 = unit_range 95"
    by (simp add: unit_range_def)
  from classification_monotone_in_degrees [of 30 95 ladder THERMAL_STATUS_NORMAL] h u
  show ?thesis
    by (simp add: classify_def convert_to_degrees_C_def figure_out_new_status_def
        raise_status_unfold)
qed

section \<open>Requests and responses\<close>

lemma deref_one_sensor:
  "deref one_sensor 1 = Some (thermal_object_at THERMAL_STATUS_NORMAL True)"
  by (simp add: deref_def one_sensor_def NULL_def)

text \<open>An idle object is asked for its temperature by the next wake-up.\<close>

lemma wakeup_requests_when_idle:
  assumes "deref s p = Some ob" and "\<not> request_pending ob" and "completed answer = None"
  shows "\<exists>s'. handle_DSM_MSGTYPE_WAKEUP answer p s = Some s' \<and>
     new_events s s' =
       [Request_temperature p,
        Wait (mintime (state (conf ob) (status ob))) (maxtime (state (conf ob) (status ob))) p]"
  using assms
  by (cases "accepted answer")
     (auto simp: handle_DSM_MSGTYPE_WAKEUP_def thermal_object_polling_interval_expired_def
        send_temperature_request_def call_request_temperature_def deref_def emit_def
        new_events_def Let_def split: if_splits)

text \<open>
  C6. When the completion delivers -1 for an object, the response handler clears the
  object's \<open>request_pending\<close> and does nothing else: the configuration is not re-read
  and no classification happens, the object's status, the aggregate and the overheat
  flag stay as they were, and nothing is sent. The next wake-up then asks the sensor
  again (shown for a sensor that answers later).
\<close>

theorem failed_reading_only_clears_pending:
  assumes "deref s p = Some ob"
  shows "receive_temperature_response tuning_file p (- 1) s =
           Some (s\<lparr>heap := (heap s)(p \<mapsto> ob\<lparr>request_pending := False\<rparr>)\<rparr>) \<and>
         (\<exists>s' ob'. receive_temperature_response tuning_file p (- 1) s = Some s' \<and>
            deref s' p = Some ob' \<and> \<not> request_pending ob' \<and>
            status ob' = status ob \<and> conf ob' = conf ob \<and>
            current_status s' = current_status s \<and> overheated s' = overheated s \<and>
            new_events s s' = [] \<and>
            (completed answer = None \<longrightarrow>
               (\<exists>s''. handle_DSM_MSGTYPE_WAKEUP answer p s' = Some s'' \<and>
                  new_events s' s'' =
                    [Request_temperature p,
                     Wait (mintime (state (conf ob) (status ob)))
                          (maxtime (state (conf ob) (status ob))) p])))"
proof -
  let ?ob' = "ob\<lparr>request_pending := False\<rparr>"
  let ?s' = "s\<lparr>heap := (heap s)(p \<mapsto> ?ob')\<rparr>"
  have r: "receive_temperature_response tuning_file p (- 1) s = Some ?s'"
    using assms by (simp add: receive_temperature_response_def)
  have p: "p \<noteq> NULL" using assms by (simp add: deref_def split: if_splits)
  have d: "deref ?s' p = Some ?ob'"
    using p by (simp add: deref_def)
  have e: "new_events s ?s' = []"
    by (simp add: new_events_def)
  have w: "\<exists>s''. handle_DSM_MSGTYPE_WAKEUP answer p ?s' = Some s'' \<and>
      new_events ?s' s'' =
        [Request_temperature p,
         Wait (mintime (state (conf ob) (status ob))) (maxtime (state (conf ob) (status ob))) p]"
    if "completed answer = None"
    using wakeup_requests_when_idle [OF d _ that] by simp
  from r d e w show ?thesis by simp
qed

text \<open>
  The reading of \<open>one_sensor\<close>'s object fails: the object is idle again and all else is
  as before.
\<close>

theorem failed_reading_only_clears_pending_witness:
  "deref one_sensor 1 = Some (thermal_object_at THERMAL_STATUS_NORMAL True) \<and>
   completed answers_later = None \<and>
   receive_temperature_response None 1 (- 1) one_sensor =
     Some (one_sensor\<lparr>heap := (heap one_sensor)(1 \<mapsto> thermal_object_at THERMAL_STATUS_NORMAL False)\<rparr>)"
proof -
  have h: "deref one_sensor 1 = Some (thermal_object_at THERMAL_STATUS_NORMAL True)"
    by (rule deref_one_sensor)
  have a: "completed answers_later = None"
    by (simp add: answers_later_def)
  from failed_reading_only_clears_pending [OF h, of None answers_later] h a
  show ?thesis by (simp add: thermal_object_at_def)
qed

lemma send_temperature_request_pending:
  assumes "deref s p = Some ob" "request_pending ob"
  shows "send_temperature_request answer p s = Some s"
  using assms by (simp add: send_temperature_request_def)

lemma polling_pending:
  assumes "deref s p = Some ob" "request_pending ob"
  shows "thermal_object_polling_interval_expired answer p s =
    Some (emit (Wait (mintime (state (conf ob) (status ob)))
                     (maxtime (state (conf ob) (status ob))) p) s)"
  using assms
  by (simp add: thermal_object_polling_interval_expired_def send_temperature_request_pending
      Let_def)

lemma filter_request_emit_wait:
  "filter is_request_temperature (new_events s (emit (Wait a b p) s)) = []"
  by (simp add: new_events_def emit_def)

lemma deref_emit: "deref (emit e s) p = deref s p"
  by (simp add: emit_def deref_def)

text \<open>
  C7. For an object whose \<open>request_pending\<close> is set, a poll trigger does not call the
  sensor's \<open>request_temperature\<close> and leaves the object as it is: the request function
  itself changes nothing, and a wake-up, a registration and a registration of a copy
  (tuning build) add no request to what was sent.
\<close>

theorem no_request_while_pending:
  assumes "deref s p = Some ob" and "request_pending ob"
  shows "send_temperature_request answer p s = Some s \<and>
    (\<exists>s'. handle_DSM_MSGTYPE_WAKEUP answer p s = Some s' \<and>
       filter is_request_temperature (new_events s s') = [] \<and> deref s' p = Some ob) \<and>
    (\<exists>s'. dsme_register_thermal_object answer p s = Some s' \<and>
       filter is_request_temperature (new_events s s') = [] \<and> deref s' p = Some ob) \<and>
    (copy_object \<noteq> NULL \<longrightarrow>
      (\<exists>s'. dsme_register_thermal_object_tuning (Some copy_object) answer p s = Some s' \<and>
         filter is_request_temperature (new_events s s') = [] \<and>
         deref s' copy_object = Some ob))"
proof -
  let ?c = "state (conf ob) (status ob)"
  let ?w = "Wait (mintime ?c) (maxtime ?c)"
  have wake: "handle_DSM_MSGTYPE_WAKEUP answer p s = Some (emit (?w p) s)"
    using assms by (simp add: handle_DSM_MSGTYPE_WAKEUP_def polling_pending)
  let ?s1 = "s\<lparr>thermal_objects := thermal_objects s @ [p]\<rparr>"
  have d1: "deref ?s1 p = Some ob"
    using assms(1) by (auto simp: deref_def split: if_splits)
  have reg: "dsme_register_thermal_object answer p s = Some (emit (?w p) ?s1)"
    using polling_pending [OF d1 assms(2)] by (simp add: dsme_register_thermal_object_def)
  have ev1: "filter is_request_temperature (new_events s (emit (?w p) ?s1)) = []"
    by (simp add: new_events_def emit_def)
  have tun: "\<exists>s'. dsme_register_thermal_object_tuning (Some copy_object) answer p s = Some s' \<and>
         filter is_request_temperature (new_events s s') = [] \<and>
         deref s' copy_object = Some ob" if q: "copy_object \<noteq> NULL"
  proof -
    let ?s2 = "s\<lparr>heap := (heap s)(copy_object \<mapsto> ob),
                   thermal_objects := thermal_objects s @ [copy_object]\<rparr>"
    have d2: "deref ?s2 copy_object = Some ob"
      using q by (simp add: deref_def)
    have "dsme_register_thermal_object_tuning (Some copy_object) answer p s =
        Some (emit (?w copy_object) ?s2)"
      using assms(1) polling_pending [OF d2 assms(2)]
      by (simp add: dsme_register_thermal_object_tuning_def thermal_object_copy_def)
    moreover have "filter is_request_temperature (new_events s (emit (?w copy_object) ?s2)) = []"
      by (simp add: new_events_def emit_def)
    moreover have "deref (emit (?w copy_object) ?s2) copy_object = Some ob"
      using d2 by (simp add: deref_emit)
    ultimately show ?thesis by blast
  qed
  have "deref (emit (?w p) s) p = Some ob" "deref (emit (?w p) ?s1) p = Some ob"
    using assms(1) d1 by (simp_all add: deref_emit)
  with wake reg ev1 tun send_temperature_request_pending [OF assms] filter_request_emit_wait
  show ?thesis by auto
qed

text \<open>
  The object of \<open>one_sensor\<close> has a reading under way: the request function returns the
  state as it is, a wake-up adds the wake request only, and a registration of a copy at
  address 2 adds the copy, its list entry and its wake request only.
\<close>

theorem no_request_while_pending_witness:
  "deref one_sensor 1 = Some (thermal_object_at THERMAL_STATUS_NORMAL True) \<and>
   request_pending (thermal_object_at THERMAL_STATUS_NORMAL True) \<and>
   (2 :: nat) \<noteq> NULL \<and>
   send_temperature_request answers_later 1 one_sensor = Some one_sensor \<and>
   handle_DSM_MSGTYPE_WAKEUP answers_later 1 one_sensor = Some (emit (Wait 55 60 1) one_sensor) \<and>
   dsme_register_thermal_object_tuning (Some 2) answers_later 1 one_sensor =
     Some (emit (Wait 55 60 2)
       (one_sensor\<lparr>heap := (heap one_sensor)(2 \<mapsto> thermal_object_at THERMAL_STATUS_NORMAL True),
                   thermal_objects := [1, 2]\<rparr>))"
proof -
  have h: "deref one_sensor 1 = Some (thermal_object_at THERMAL_STATUS_NORMAL True)"
    by (rule deref_one_sensor)
  have q: "request_pending (thermal_object_at THERMAL_STATUS_NORMAL True)"
    by (simp add: thermal_object_at_def)
  have w: "handle_DSM_MSGTYPE_WAKEUP answers_later 1 one_sensor = Some (emit (Wait 55 60 1) one_sensor)"
    using h
    by (simp add: handle_DSM_MSGTYPE_WAKEUP_def thermal_object_polling_interval_expired_def
        send_temperature_request_def thermal_object_at_def battery_conf_def)
  have g: "dsme_register_thermal_object_tuning (Some 2) answers_later 1 one_sensor =
     Some (emit (Wait 55 60 2)
       (one_sensor\<lparr>heap := (heap one_sensor)(2 \<mapsto> thermal_object_at THERMAL_STATUS_NORMAL True),
                   thermal_objects := [1, 2]\<rparr>))"
    by (simp add: dsme_register_thermal_object_tuning_def thermal_object_copy_def
        thermal_object_polling_interval_expired_def send_temperature_request_def
        deref_def NULL_def one_sensor_def thermal_object_at_def battery_conf_def)
  from no_request_while_pending [OF h q, of answers_later 2] h q w g
  show ?thesis by (simp add: NULL_def)
qed

section \<open>The aggregate and its indication\<close>

lemma deref_NULL: "deref s p = Some ob \<Longrightarrow> p \<noteq> NULL"
  by (simp add: deref_def split: if_splits)

lemma deref_updates:
  "deref (s\<lparr>heap := h\<rparr>) p = (if p = NULL then None else h p)"
  "deref (s\<lparr>events := es\<rparr>) p = deref s p"
  "deref (s\<lparr>thermal_objects := l\<rparr>) p = deref s p"
  "deref (s\<lparr>current_status := c\<rparr>) p = deref s p"
  "deref (s\<lparr>overheated := b\<rparr>) p = deref s p"
  "deref (emit e s) p = deref s p"
  by (simp_all add: deref_def emit_def)

lemma deref_cong: "heap s1 = heap s2 \<Longrightarrow> deref s1 p = deref s2 p"
  by (simp add: deref_def)

lemma worst_status_loop_cong:
  "heap s1 = heap s2 \<Longrightarrow> worst_status_loop s1 ps acc = worst_status_loop s2 ps acc"
  by (induction ps arbitrary: acc) (simp_all add: deref_cong [of s1 s2] split: option.splits)

lemma worst_current_cong:
  "heap s1 = heap s2 \<Longrightarrow> thermal_objects s1 = thermal_objects s2 \<Longrightarrow>
   worst_current_thermal_object_status s1 = worst_current_thermal_object_status s2"
  by (simp add: worst_current_thermal_object_status_def worst_status_loop_cong [of s1 s2])

lemma Max_absorb_max:
  "Max (set (max a x # rest)) = Max (set (a # x # rest))" for a :: THERMAL_STATUS
  by (cases "rest = []") (simp_all add: max.assoc)

lemma worst_status_loop_Max:
  "worst_status_loop s ps acc = Some w \<Longrightarrow>
   w = Max (set (acc # List.map_filter (\<lambda>p. map_option status (deref s p)) ps))"
proof (induction ps arbitrary: acc)
  case Nil
  then show ?case by (simp add: List.map_filter_simps)
next
  case (Cons p ps)
  from Cons.prems obtain ob where ob: "deref s p = Some ob"
    and rest: "worst_status_loop s ps (if status ob > acc then status ob else acc) = Some w"
    by (auto split: option.splits)
  let ?rest = "List.map_filter (\<lambda>p. map_option status (deref s p)) ps"
  have m: "(if status ob > acc then status ob else acc) = max acc (status ob)"
    by (auto simp: max_def)
  have "w = Max (set (max acc (status ob) # ?rest))"
    using Cons.IH [OF rest] by (simp only: m)
  also have "\<dots> = Max (set (acc # status ob # ?rest))"
    by (rule Max_absorb_max)
  finally show ?case using ob by (simp add: List.map_filter_simps)
qed

lemma worst_current_Max:
  "worst_current_thermal_object_status s = Some w \<Longrightarrow>
   w = Max (set (THERMAL_STATUS_NORMAL # registered_statuses s))"
  unfolding worst_current_thermal_object_status_def registered_statuses_def
  by (rule worst_status_loop_Max)

lemma send_thermal_indication_fields:
  "heap (send_thermal_indication s) = heap s"
  "thermal_objects (send_thermal_indication s) = thermal_objects s"
  "current_status (send_thermal_indication s) = current_status s"
  "is_in_ta_test (send_thermal_indication s) = is_in_ta_test s"
  "overheated (send_thermal_indication s) = (current_status s = THERMAL_STATUS_FATAL)"
  "events (send_thermal_indication s) =
     events s @ Dbus_signal (thermal_status_name (current_status s)) #
       (if current_status s = THERMAL_STATUS_FATAL then [Set_thermal_state True]
        else if overheated s then [Set_thermal_state False] else [])"
  by (auto simp: send_thermal_indication_def send_overheat_status_def emit_def
      current_status_name_def Let_def)

lemma worst_current_send_thermal_indication:
  "worst_current_thermal_object_status (send_thermal_indication s) =
   worst_current_thermal_object_status s"
  by (rule worst_current_cong) (simp_all add: send_thermal_indication_fields)

lemma worst_current_current_status_update:
  "worst_current_thermal_object_status (s\<lparr>current_status := w\<rparr>) =
   worst_current_thermal_object_status s"
  by (rule worst_current_cong) simp_all

lemma deref_send_thermal_indication:
  "deref (send_thermal_indication s) p = deref s p"
  by (rule deref_cong) (simp add: send_thermal_indication_fields)

lemma receive_events:
  assumes "receive_temperature_response f p t s = Some s'"
  shows "events s' = events s @
      (if current_status s' = current_status s then []
       else Dbus_signal (thermal_status_name (current_status s')) #
         (if current_status s' = THERMAL_STATUS_FATAL then [Set_thermal_state True]
          else if overheated s then [Set_thermal_state False] else []))"
    and "overheated s' =
      (if current_status s' = current_status s then overheated s
       else current_status s' = THERMAL_STATUS_FATAL)"
    and "thermal_objects s' = thermal_objects s"
  using assms unfolding receive_temperature_response_def
  by (auto simp: Let_def send_thermal_indication_fields split: option.splits if_splits)

lemma receive_recomputes:
  assumes "receive_temperature_response f p t s = Some s'"
    and "deref s p = Some ob" and "deref s' p = Some ob'" and "status ob' \<noteq> status ob"
  shows "worst_current_thermal_object_status s' = Some (current_status s')"
  using assms unfolding receive_temperature_response_def
  by (auto simp: Let_def send_thermal_indication_fields worst_current_send_thermal_indication
      worst_current_current_status_update deref_send_thermal_indication deref_def
      split: option.splits if_splits)

lemma receive_keeps_object:
  assumes "receive_temperature_response f p t s = Some s'"
  shows "\<exists>ob'. deref s' p = Some ob'"
proof -
  from assms obtain ob where ob: "deref s p = Some ob"
    by (auto simp: receive_temperature_response_def split: option.splits)
  then have p: "p \<noteq> NULL" by (rule deref_NULL)
  from assms ob p show ?thesis
    unfolding receive_temperature_response_def
    by (auto simp: Let_def deref_send_thermal_indication deref_updates
        split: option.splits if_splits)
qed

text \<open>
  With a valid object and valid pointers in the list, the response handler runs to its
  end.
\<close>

lemma worst_status_loop_returns:
  "list_all (\<lambda>q. deref s q \<noteq> None) ps \<Longrightarrow> \<exists>w. worst_status_loop s ps acc = Some w"
  by (induction ps arbitrary: acc) auto

lemma registered_pointers_valid_update:
  assumes "registered_pointers_valid s" and "p \<noteq> NULL"
  shows "registered_pointers_valid (s\<lparr>heap := (heap s)(p \<mapsto> x)\<rparr>)"
  using assms by (auto simp: registered_pointers_valid_def list_all_iff deref_def)

lemma worst_current_returns:
  "registered_pointers_valid s \<Longrightarrow> \<exists>w. worst_current_thermal_object_status s = Some w"
  unfolding registered_pointers_valid_def worst_current_thermal_object_status_def
  by (rule worst_status_loop_returns)

lemma receive_returns:
  assumes "deref s p = Some ob" and "registered_pointers_valid s"
  shows "\<exists>s'. receive_temperature_response f p t s = Some s'"
proof -
  have p: "p \<noteq> NULL" using assms(1) by (rule deref_NULL)
  have nn: "worst_current_thermal_object_status (s\<lparr>heap := (heap s)(p \<mapsto> x)\<rparr>) \<noteq> None" for x
    using worst_current_returns [OF registered_pointers_valid_update [OF assms(2) p, of x]]
    by auto
  have "receive_temperature_response f p t s \<noteq> None"
    using assms(1)
    by (auto simp: receive_temperature_response_def Let_def nn split: option.splits)
  then show ?thesis by auto
qed

lemmas run_defs =
  receive_temperature_response_def deref_def NULL_def one_sensor_def two_sensors_def
  thermal_object_at_def battery_conf_def classify_def convert_to_degrees_C_def
  figure_out_new_status_def lower_status_unfold raise_status_unfold
  worst_current_thermal_object_status_def Let_def status_order_defs
  send_thermal_indication_def send_overheat_status_def emit_def current_status_name_def
  after_reading_def new_events_def

lemmas wakeup_defs =
  after_wakeup_def handle_DSM_MSGTYPE_WAKEUP_def thermal_object_polling_interval_expired_def
  send_temperature_request_def call_request_temperature_def answers_later_def
  answers_at_once_def refuses_def idle_sensor_def

text \<open>
  C3. With valid pointers the response handler returns, and whenever the completed
  reading has changed the status of the thermal object, the aggregate
  is recomputed by \<open>worst_current_thermal_object_status\<close> and is the greatest, in the
  order of the enumeration, of Normal and the statuses of all registered objects; the
  state-change signal is sent exactly when this aggregate differs from the one indicated
  before, once, and its payload is the lowercase name of the new aggregate: ``normal'',
  ``warning'', ``alert'' or ``fatal''; when the aggregate stays, no signal is sent although
  the object's status changed.
\<close>

theorem aggregate_recomputed_and_signalled_on_change:
  assumes "deref s p = Some ob" and "registered_pointers_valid s"
  shows "\<exists>s' ob'. receive_temperature_response f p t s = Some s' \<and> deref s' p = Some ob' \<and>
    (status ob' \<noteq> status ob \<longrightarrow>
       worst_current_thermal_object_status s' = Some (current_status s') \<and>
       current_status s' = Max (set (THERMAL_STATUS_NORMAL # registered_statuses s')) \<and>
       filter is_dbus_signal (new_events s s') =
         (if current_status s' \<noteq> current_status s
          then [Dbus_signal
                  (case current_status s' of
                     THERMAL_STATUS_NORMAL \<Rightarrow> ''normal''
                   | THERMAL_STATUS_WARNING \<Rightarrow> ''warning''
                   | THERMAL_STATUS_ALERT \<Rightarrow> ''alert''
                   | THERMAL_STATUS_FATAL \<Rightarrow> ''fatal'')]
          else []))"
proof -
  from receive_returns [OF assms] obtain s' where
    r: "receive_temperature_response f p t s = Some s'" ..
  from receive_keeps_object [OF r] obtain ob' where d': "deref s' p = Some ob'" ..
  have "worst_current_thermal_object_status s' = Some (current_status s') \<and>
       current_status s' = Max (set (THERMAL_STATUS_NORMAL # registered_statuses s')) \<and>
       filter is_dbus_signal (new_events s s') =
         (if current_status s' \<noteq> current_status s
          then [Dbus_signal
                  (case current_status s' of
                     THERMAL_STATUS_NORMAL \<Rightarrow> ''normal''
                   | THERMAL_STATUS_WARNING \<Rightarrow> ''warning''
                   | THERMAL_STATUS_ALERT \<Rightarrow> ''alert''
                   | THERMAL_STATUS_FATAL \<Rightarrow> ''fatal'')]
          else [])"
    if n: "status ob' \<noteq> status ob"
  proof -
    have w: "worst_current_thermal_object_status s' = Some (current_status s')"
      by (rule receive_recomputes [OF r assms(1) d' n])
    have m: "current_status s' = Max (set (THERMAL_STATUS_NORMAL # registered_statuses s'))"
      by (rule worst_current_Max [OF w])
    have e: "filter is_dbus_signal (new_events s s') =
        (if current_status s' \<noteq> current_status s
         then [Dbus_signal
                 (case current_status s' of
                    THERMAL_STATUS_NORMAL \<Rightarrow> ''normal''
                  | THERMAL_STATUS_WARNING \<Rightarrow> ''warning''
                  | THERMAL_STATUS_ALERT \<Rightarrow> ''alert''
                  | THERMAL_STATUS_FATAL \<Rightarrow> ''fatal'')]
         else [])"
      using receive_events(1) [OF r]
      by (cases "current_status s'") (simp_all add: new_events_def)
    from w m e show ?thesis by blast
  qed
  with r d' show ?thesis by blast
qed

text \<open>
  Two objects at Alert, Alert indicated: the reading 50 takes the first one down to
  Warning, the aggregate is still Alert, and no signal is sent. An object at Alert and
  one at Warning, Alert indicated: the reading 20 takes the first one down to Normal, the
  aggregate becomes Warning, and one signal says so.
\<close>

theorem aggregate_recomputed_and_signalled_on_change_witness:
  "registered_pointers_valid
     (two_sensors THERMAL_STATUS_ALERT THERMAL_STATUS_ALERT THERMAL_STATUS_ALERT False) \<and>
   receive_temperature_response None 1 50
     (two_sensors THERMAL_STATUS_ALERT THERMAL_STATUS_ALERT THERMAL_STATUS_ALERT False) =
     Some (after_reading 50
       (two_sensors THERMAL_STATUS_ALERT THERMAL_STATUS_ALERT THERMAL_STATUS_ALERT False)) \<and>
   deref (two_sensors THERMAL_STATUS_ALERT THERMAL_STATUS_ALERT THERMAL_STATUS_ALERT False) 1 =
     Some (thermal_object_at THERMAL_STATUS_ALERT True) \<and>
   deref (after_reading 50
       (two_sensors THERMAL_STATUS_ALERT THERMAL_STATUS_ALERT THERMAL_STATUS_ALERT False)) 1 =
     Some (thermal_object_at THERMAL_STATUS_WARNING False) \<and>
   status (thermal_object_at THERMAL_STATUS_WARNING False) \<noteq>
     status (thermal_object_at THERMAL_STATUS_ALERT True) \<and>
   current_status (after_reading 50
       (two_sensors THERMAL_STATUS_ALERT THERMAL_STATUS_ALERT THERMAL_STATUS_ALERT False)) =
     THERMAL_STATUS_ALERT \<and>
   filter is_dbus_signal (new_events
       (two_sensors THERMAL_STATUS_ALERT THERMAL_STATUS_ALERT THERMAL_STATUS_ALERT False)
       (after_reading 50
         (two_sensors THERMAL_STATUS_ALERT THERMAL_STATUS_ALERT THERMAL_STATUS_ALERT False))) = [] \<and>
   receive_temperature_response None 1 20
     (two_sensors THERMAL_STATUS_ALERT THERMAL_STATUS_WARNING THERMAL_STATUS_ALERT False) =
     Some (after_reading 20
       (two_sensors THERMAL_STATUS_ALERT THERMAL_STATUS_WARNING THERMAL_STATUS_ALERT False)) \<and>
   deref (after_reading 20
       (two_sensors THERMAL_STATUS_ALERT THERMAL_STATUS_WARNING THERMAL_STATUS_ALERT False)) 1 =
     Some (thermal_object_at THERMAL_STATUS_NORMAL False) \<and>
   current_status (after_reading 20
       (two_sensors THERMAL_STATUS_ALERT THERMAL_STATUS_WARNING THERMAL_STATUS_ALERT False)) =
     THERMAL_STATUS_WARNING \<and>
   filter is_dbus_signal (new_events
       (two_sensors THERMAL_STATUS_ALERT THERMAL_STATUS_WARNING THERMAL_STATUS_ALERT False)
       (after_reading 20
         (two_sensors THERMAL_STATUS_ALERT THERMAL_STATUS_WARNING THERMAL_STATUS_ALERT False))) =
     [Dbus_signal ''warning'']"
proof -
  let ?s = "two_sensors THERMAL_STATUS_ALERT THERMAL_STATUS_ALERT THERMAL_STATUS_ALERT False"
  let ?u = "two_sensors THERMAL_STATUS_ALERT THERMAL_STATUS_WARNING THERMAL_STATUS_ALERT False"
  have r: "receive_temperature_response None 1 50 ?s = Some (after_reading 50 ?s)"
    by (simp add: run_defs)
  have d: "deref ?s 1 = Some (thermal_object_at THERMAL_STATUS_ALERT True)"
    by (simp add: run_defs)
  have d': "deref (after_reading 50 ?s) 1 = Some (thermal_object_at THERMAL_STATUS_WARNING False)"
    by (simp add: run_defs)
  have n: "status (thermal_object_at THERMAL_STATUS_WARNING False) \<noteq>
     status (thermal_object_at THERMAL_STATUS_ALERT True)"
    by (simp add: thermal_object_at_def)
  have c: "current_status ?s = THERMAL_STATUS_ALERT"
    by (simp add: two_sensors_def)
  have rs: "registered_statuses (after_reading 50 ?s) = [THERMAL_STATUS_WARNING, THERMAL_STATUS_ALERT]"
    by (simp add: registered_statuses_def List.map_filter_simps run_defs)
  have r2: "receive_temperature_response None 1 20 ?u = Some (after_reading 20 ?u)"
    by (simp add: run_defs)
  have d2: "deref ?u 1 = Some (thermal_object_at THERMAL_STATUS_ALERT True)"
    by (simp add: run_defs)
  have d2': "deref (after_reading 20 ?u) 1 = Some (thermal_object_at THERMAL_STATUS_NORMAL False)"
    by (simp add: run_defs)
  have n2: "status (thermal_object_at THERMAL_STATUS_NORMAL False) \<noteq>
     status (thermal_object_at THERMAL_STATUS_ALERT True)"
    by (simp add: thermal_object_at_def)
  have c2: "current_status ?u = THERMAL_STATUS_ALERT"
    by (simp add: two_sensors_def)
  have rs2: "registered_statuses (after_reading 20 ?u) = [THERMAL_STATUS_NORMAL, THERMAL_STATUS_WARNING]"
    by (simp add: registered_statuses_def List.map_filter_simps run_defs)
  have v: "registered_pointers_valid ?s" "registered_pointers_valid ?u"
    by (simp_all add: registered_pointers_valid_def run_defs)
  from aggregate_recomputed_and_signalled_on_change [OF d v(1), of None 50]
    aggregate_recomputed_and_signalled_on_change [OF d2 v(2), of None 20]
    r d d' n c rs r2 d2' n2 c2 rs2 v
  show ?thesis by (auto simp: status_order_defs)
qed

text \<open>
  C4. The overheat broadcast follows the changes of the aggregate. With valid pointers
  the response handler returns. When the completed
  reading changes the aggregate to Fatal, ``overheated = true'' is broadcast and the flag
  set, whatever the flag was; when it changes the aggregate to another band and the flag
  was set, ``overheated = false'' is broadcast and the flag cleared; when it changes the
  aggregate to another band and the flag was clear, or leaves the aggregate as it was,
  nothing is broadcast and the flag keeps its value.
\<close>

theorem overheat_broadcast_on_aggregate_change:
  assumes "deref s p = Some ob" and "registered_pointers_valid s"
  shows "\<exists>s'. receive_temperature_response f p t s = Some s' \<and>
    filter is_set_thermal_state (new_events s s') =
      (if current_status s' = current_status s then []
       else if current_status s' = THERMAL_STATUS_FATAL then [Set_thermal_state True]
       else if overheated s then [Set_thermal_state False]
       else []) \<and>
    overheated s' =
      (if current_status s' = current_status s then overheated s
       else current_status s' = THERMAL_STATUS_FATAL)"
proof -
  from receive_returns [OF assms] obtain s' where
    r: "receive_temperature_response f p t s = Some s'" ..
  from receive_events(1,2) [OF r] r show ?thesis
    by (simp add: new_events_def)
qed

text \<open>
  Into Fatal: the reading 95 of the only object, ``overheated = true''. Out of Fatal: the
  reading 50 of the Fatal object beside a Normal one, the aggregate becomes Warning,
  ``overheated = false''.
\<close>

theorem overheat_broadcast_on_aggregate_change_witness:
  "deref one_sensor 1 = Some (thermal_object_at THERMAL_STATUS_NORMAL True) \<and>
   registered_pointers_valid one_sensor \<and>
   registered_pointers_valid
     (two_sensors THERMAL_STATUS_FATAL THERMAL_STATUS_NORMAL THERMAL_STATUS_FATAL True) \<and>
   receive_temperature_response None 1 95 one_sensor = Some (after_reading 95 one_sensor) \<and>
   current_status (after_reading 95 one_sensor) = THERMAL_STATUS_FATAL \<and>
   current_status one_sensor = THERMAL_STATUS_NORMAL \<and>
   filter is_set_thermal_state (new_events one_sensor (after_reading 95 one_sensor)) =
     [Set_thermal_state True] \<and>
   overheated (after_reading 95 one_sensor) \<and>
   receive_temperature_response None 1 50
     (two_sensors THERMAL_STATUS_FATAL THERMAL_STATUS_NORMAL THERMAL_STATUS_FATAL True) =
     Some (after_reading 50
       (two_sensors THERMAL_STATUS_FATAL THERMAL_STATUS_NORMAL THERMAL_STATUS_FATAL True)) \<and>
   current_status (after_reading 50
       (two_sensors THERMAL_STATUS_FATAL THERMAL_STATUS_NORMAL THERMAL_STATUS_FATAL True)) =
     THERMAL_STATUS_WARNING \<and>
   filter is_set_thermal_state (new_events
       (two_sensors THERMAL_STATUS_FATAL THERMAL_STATUS_NORMAL THERMAL_STATUS_FATAL True)
       (after_reading 50
         (two_sensors THERMAL_STATUS_FATAL THERMAL_STATUS_NORMAL THERMAL_STATUS_FATAL True))) =
     [Set_thermal_state False] \<and>
   \<not> overheated (after_reading 50
       (two_sensors THERMAL_STATUS_FATAL THERMAL_STATUS_NORMAL THERMAL_STATUS_FATAL True))"
proof -
  let ?s = "two_sensors THERMAL_STATUS_FATAL THERMAL_STATUS_NORMAL THERMAL_STATUS_FATAL True"
  have r1: "receive_temperature_response None 1 95 one_sensor = Some (after_reading 95 one_sensor)"
    by (simp add: run_defs)
  have c1: "current_status (after_reading 95 one_sensor) = THERMAL_STATUS_FATAL"
    by (simp add: run_defs)
  have o1: "current_status one_sensor = THERMAL_STATUS_NORMAL"
    by (simp add: one_sensor_def)
  have r2: "receive_temperature_response None 1 50 ?s = Some (after_reading 50 ?s)"
    by (simp add: run_defs)
  have c2: "current_status (after_reading 50 ?s) = THERMAL_STATUS_WARNING"
    by (simp add: run_defs)
  have o2: "current_status ?s = THERMAL_STATUS_FATAL" "overheated ?s"
    by (simp_all add: two_sensors_def)
  have d1: "deref one_sensor 1 = Some (thermal_object_at THERMAL_STATUS_NORMAL True)"
    by (simp add: run_defs)
  have d2: "deref ?s 1 = Some (thermal_object_at THERMAL_STATUS_FATAL True)"
    by (simp add: run_defs)
  have v: "registered_pointers_valid one_sensor" "registered_pointers_valid ?s"
    by (simp_all add: registered_pointers_valid_def run_defs)
  from overheat_broadcast_on_aggregate_change [OF d1 v(1), of None 95]
    overheat_broadcast_on_aggregate_change [OF d2 v(2), of None 50]
    r1 c1 o1 r2 c2 o2 d1 v
  show ?thesis by simp
qed

section \<open>The wake request\<close>

lemma receive_no_wait:
  assumes "receive_temperature_response f p t s = Some s'"
  shows "\<exists>es. events s' = events s @ es \<and> filter is_wait es = []"
  using receive_events(1) [OF assms] by simp

lemma call_request_temperature_result:
  assumes "call_request_temperature answer p s = Some s'" and "deref s p = Some ob"
  shows "\<exists>es. events s' = events s @ es \<and> filter is_wait es = []"
    and "\<exists>ob'. deref s' p = Some ob'"
proof -
  let ?s1 = "emit (Request_temperature p) s"
  show "\<exists>es. events s' = events s @ es \<and> filter is_wait es = []"
  proof (cases "completed answer")
    case None
    with assms(1) have "s' = ?s1"
      by (simp add: call_request_temperature_def Let_def)
    then show ?thesis by (simp add: emit_def)
  next
    case (Some c)
    obtain f t where c: "c = (f, t)" by (cases c)
    with Some assms(1) have "receive_temperature_response f p t ?s1 = Some s'"
      by (simp add: call_request_temperature_def Let_def)
    from receive_no_wait [OF this] show ?thesis
      by (auto simp: emit_def)
  qed
  show "\<exists>ob'. deref s' p = Some ob'"
  proof (cases "completed answer")
    case None
    with assms(1) have "s' = ?s1"
      by (simp add: call_request_temperature_def Let_def)
    with assms(2) show ?thesis by (simp add: deref_updates)
  next
    case (Some c)
    obtain f t where c: "c = (f, t)" by (cases c)
    with Some assms(1) have "receive_temperature_response f p t ?s1 = Some s'"
      by (simp add: call_request_temperature_def Let_def)
    then show ?thesis by (rule receive_keeps_object)
  qed
qed

lemma send_temperature_request_result:
  assumes "send_temperature_request answer p s = Some s'"
  shows "(\<exists>es. events s' = events s @ es \<and> filter is_wait es = []) \<and>
    (\<exists>ob'. deref s' p = Some ob')"
proof -
  from assms obtain ob where ob: "deref s p = Some ob"
    by (auto simp: send_temperature_request_def split: option.splits)
  show ?thesis
  proof (cases "request_pending ob")
    case True
    with assms ob have "s' = s" by (simp add: send_temperature_request_def)
    with ob show ?thesis by simp
  next
    case False
    let ?s1 = "s\<lparr>heap := (heap s)(p \<mapsto> ob\<lparr>request_pending := True\<rparr>)\<rparr>"
    have d1: "deref ?s1 p = Some (ob\<lparr>request_pending := True\<rparr>)"
      using deref_NULL [OF ob] by (simp add: deref_updates)
    from assms ob False obtain s2 where call: "call_request_temperature answer p ?s1 = Some s2"
      and rest: "s' = s2 \<or>
        (\<exists>ob2. deref s2 p = Some ob2 \<and>
           s' = s2\<lparr>heap := (heap s2)(p \<mapsto> ob2\<lparr>request_pending := False\<rparr>)\<rparr>)"
      by (auto simp: send_temperature_request_def Let_def split: option.splits if_splits)
    from call_request_temperature_result [OF call d1]
    obtain es ob2 where es: "events s2 = events s @ es" "filter is_wait es = []"
      and ob2: "deref s2 p = Some ob2"
      by auto
    from rest es ob2 deref_NULL [OF ob] show ?thesis
      by (auto simp: deref_updates)
  qed
qed

lemma polling_rearms:
  assumes "thermal_object_polling_interval_expired answer p s = Some s'"
  shows "rearmed p s s'"
proof -
  from assms obtain s1 ob1 where s1: "send_temperature_request answer p s = Some s1"
    and ob1: "deref s1 p = Some ob1"
    and s': "s' = emit (Wait (mintime (state (conf ob1) (status ob1)))
                             (maxtime (state (conf ob1) (status ob1))) p) s1"
    by (auto simp: thermal_object_polling_interval_expired_def Let_def split: option.splits)
  from send_temperature_request_result [OF s1]
  obtain es where es: "events s1 = events s @ es" "filter is_wait es = []"
    by auto
  have "deref s' p = Some ob1"
    using ob1 s' by (simp add: deref_updates)
  moreover have "filter is_wait (new_events s s') =
      [Wait (mintime (state (conf ob1) (status ob1))) (maxtime (state (conf ob1) (status ob1))) p]"
    using es s' by (simp add: new_events_def emit_def)
  ultimately show ?thesis by (simp add: rearmed_def)
qed

lemma polling_asynchronous:
  assumes "deref s p = Some ob" and "completed answer = None"
  shows "\<exists>s'. thermal_object_polling_interval_expired answer p s = Some s' \<and>
     deref s' p = Some (ob\<lparr>request_pending := request_pending ob \<or> accepted answer\<rparr>)"
  using assms
  by (cases "request_pending ob"; cases "accepted answer")
     (auto simp: thermal_object_polling_interval_expired_def send_temperature_request_def
        call_request_temperature_def deref_def emit_def Let_def split: if_splits)

text \<open>
  C5, as stated, fails: a reading-completion callback sends no wake request. The reading
  95 completes for a Normal object, the object becomes Fatal, and no
  \<^verbatim>\<open>DSM_MSGTYPE_WAIT\<close> is among what the callback sent.
\<close>

theorem response_issues_no_wait:
  "receive_temperature_response None 1 95 one_sensor = Some (after_reading 95 one_sensor) \<and>
   deref (after_reading 95 one_sensor) 1 = Some (thermal_object_at THERMAL_STATUS_FATAL False) \<and>
   filter is_wait (new_events one_sensor (after_reading 95 one_sensor)) = []"
  by (simp add: run_defs)

text \<open>
  C5, amended. The wake request is sent by the poll trigger, not by the completion
  callback. For every thermal object, each wake-up and each registration that returns,
  in either build, has sent, in its own call stack and whether or not a reading was
  requested, exactly one wake request, tagged with the object that is polled and
  carrying the \<open>mintime\<close> and \<open>maxtime\<close> of the band this object holds when the trigger
  returns. The object polled is the one of the wake-up, or the one registered; with
  \<^verbatim>\<open>DSME_THERMAL_TUNING\<close> it is the copy that registration has allocated, and a
  registration returns only if it has allocated one. For a sensor that completes its
  readings later, the wake-up returns, the registration returns, and with
  \<^verbatim>\<open>DSME_THERMAL_TUNING\<close> the registration returns where the copy is allocated; the band
  is then the one the object had before (the result of the readings completed earlier).
  It is the band after classification only for a sensor that delivers the reading before
  its request call returns. A reading-completion callback sends no wake request.
\<close>

theorem wait_on_every_poll_trigger:
  assumes "deref s p = Some ob"
  shows "(\<forall>s'. handle_DSM_MSGTYPE_WAKEUP answer p s = Some s' \<longrightarrow> rearmed p s s') \<and>
    (\<forall>s'. dsme_register_thermal_object answer p s = Some s' \<longrightarrow> rearmed p s s') \<and>
    (\<forall>alloc s'. dsme_register_thermal_object_tuning alloc answer p s = Some s' \<longrightarrow>
       (\<exists>copy. alloc = Some copy \<and> copy \<noteq> NULL \<and> rearmed copy s s')) \<and>
    (completed answer = None \<longrightarrow>
       (\<exists>s'. handle_DSM_MSGTYPE_WAKEUP answer p s = Some s' \<and>
          deref s' p = Some (ob\<lparr>request_pending := request_pending ob \<or> accepted answer\<rparr>)) \<and>
       (\<exists>s'. dsme_register_thermal_object answer p s = Some s' \<and>
          deref s' p = Some (ob\<lparr>request_pending := request_pending ob \<or> accepted answer\<rparr>)) \<and>
       (\<forall>copy. copy \<noteq> NULL \<longrightarrow>
          (\<exists>s'. dsme_register_thermal_object_tuning (Some copy) answer p s = Some s' \<and>
             deref s' copy =
               Some (ob\<lparr>request_pending := request_pending ob \<or> accepted answer\<rparr>)))) \<and>
    (\<forall>tuning_file t s'. receive_temperature_response tuning_file p t s = Some s' \<longrightarrow>
       filter is_wait (new_events s s') = [])"
proof -
  let ?s1 = "s\<lparr>thermal_objects := thermal_objects s @ [p]\<rparr>"
  have wake: "handle_DSM_MSGTYPE_WAKEUP answer p s =
      thermal_object_polling_interval_expired answer p s"
    using assms by (simp add: handle_DSM_MSGTYPE_WAKEUP_def)
  have reg_eq: "dsme_register_thermal_object answer p s =
      thermal_object_polling_interval_expired answer p ?s1"
    by (simp add: dsme_register_thermal_object_def)
  have d1: "deref ?s1 p = Some ob"
    using assms by (simp add: deref_updates)
  have reg: "rearmed p s s'" if r: "dsme_register_thermal_object answer p s = Some s'" for s'
  proof -
    from r have "rearmed p ?s1 s'"
      by (simp add: reg_eq polling_rearms)
    then show ?thesis by (auto simp: rearmed_def new_events_def split: option.splits)
  qed
  have resp: "filter is_wait (new_events s s') = []"
    if "receive_temperature_response tuning_file p t s = Some s'" for tuning_file t s'
    using receive_events(1) [OF that] by (simp add: new_events_def)
  have tun_eq: "dsme_register_thermal_object_tuning (Some copy) answer p s =
      thermal_object_polling_interval_expired answer copy
        (s\<lparr>heap := (heap s)(copy \<mapsto> ob), thermal_objects := thermal_objects s @ [copy]\<rparr>)"
    for copy
    using assms
    by (simp add: dsme_register_thermal_object_tuning_def thermal_object_copy_def)
  have tun_null: "thermal_object_polling_interval_expired answer NULL s0 = None" for s0
    by (simp add: thermal_object_polling_interval_expired_def send_temperature_request_def
        deref_def)
  have tun: "\<exists>copy. alloc = Some copy \<and> copy \<noteq> NULL \<and> rearmed copy s s'"
    if r: "dsme_register_thermal_object_tuning alloc answer p s = Some s'" for alloc s'
  proof (cases alloc)
    case None
    with r show ?thesis
      by (simp add: dsme_register_thermal_object_tuning_def thermal_object_copy_def tun_null)
  next
    case (Some copy)
    let ?s2 = "s\<lparr>heap := (heap s)(copy \<mapsto> ob), thermal_objects := thermal_objects s @ [copy]\<rparr>"
    from r Some have p2: "thermal_object_polling_interval_expired answer copy ?s2 = Some s'"
      by (simp add: tun_eq)
    with tun_null [of ?s2] have n: "copy \<noteq> NULL" by auto
    from p2 have "rearmed copy ?s2 s'" by (rule polling_rearms)
    then have "rearmed copy s s'"
      by (auto simp: rearmed_def new_events_def split: option.splits)
    with Some n show ?thesis by simp
  qed
  have tun_returns: "\<exists>s'. dsme_register_thermal_object_tuning (Some copy) answer p s = Some s' \<and>
      deref s' copy = Some (ob\<lparr>request_pending := request_pending ob \<or> accepted answer\<rparr>)"
    if c: "completed answer = None" and n: "copy \<noteq> NULL" for copy
  proof -
    let ?s2 = "s\<lparr>heap := (heap s)(copy \<mapsto> ob), thermal_objects := thermal_objects s @ [copy]\<rparr>"
    have "deref ?s2 copy = Some ob"
      using n by (simp add: deref_def)
    from polling_asynchronous [OF this c] show ?thesis
      by (simp add: tun_eq)
  qed
  from wake reg_eq reg resp tun tun_returns polling_rearms [of answer p s]
    polling_asynchronous [OF assms, of answer] polling_asynchronous [OF d1, of answer]
  show ?thesis by auto
qed

text \<open>
  A wake-up for an idle object, Normal on the ladder, with a sensor that answers later:
  the request and then the wake request with Normal's window, 55 to 60. The same with a
  sensor that delivers 95 at once: the object is Fatal when the wake request goes out,
  with Fatal's window, 2 to 5. A registration with a sensor that refuses: the wake
  request all the same. A registration with \<^verbatim>\<open>DSME_THERMAL_TUNING\<close>, the copy at
  address 2: request and wake request are for the copy. And the completion of a reading
  by itself: no wake request.
\<close>

theorem wait_on_every_poll_trigger_witness:
  "deref idle_sensor 1 = Some (thermal_object_at THERMAL_STATUS_NORMAL False) \<and>
   completed answers_later = None \<and>
   handle_DSM_MSGTYPE_WAKEUP answers_later 1 idle_sensor =
     Some (after_wakeup answers_later idle_sensor) \<and>
   new_events idle_sensor (after_wakeup answers_later idle_sensor) =
     [Request_temperature 1, Wait 55 60 1] \<and>
   rearmed 1 idle_sensor (after_wakeup answers_later idle_sensor) \<and>
   handle_DSM_MSGTYPE_WAKEUP (answers_at_once 95) 1 idle_sensor =
     Some (after_wakeup (answers_at_once 95) idle_sensor) \<and>
   new_events idle_sensor (after_wakeup (answers_at_once 95) idle_sensor) =
     [Request_temperature 1, Dbus_signal ''fatal'', Set_thermal_state True, Wait 2 5 1] \<and>
   rearmed 1 idle_sensor (after_wakeup (answers_at_once 95) idle_sensor) \<and>
   dsme_register_thermal_object refuses 1 idle_sensor =
     Some (after_registration refuses idle_sensor) \<and>
   new_events idle_sensor (after_registration refuses idle_sensor) =
     [Request_temperature 1, Wait 55 60 1] \<and>
   rearmed 1 idle_sensor (after_registration refuses idle_sensor) \<and>
   dsme_register_thermal_object_tuning (Some 2) answers_later 1 idle_sensor =
     Some (after_tuning_registration answers_later idle_sensor) \<and>
   new_events idle_sensor (after_tuning_registration answers_later idle_sensor) =
     [Request_temperature 2, Wait 55 60 2] \<and>
   thermal_objects (after_tuning_registration answers_later idle_sensor) = [1, 2] \<and>
   rearmed 2 idle_sensor (after_tuning_registration answers_later idle_sensor) \<and>
   deref (after_tuning_registration answers_later idle_sensor) 2 =
     Some (thermal_object_at THERMAL_STATUS_NORMAL True) \<and>
   receive_temperature_response None 1 95 one_sensor = Some (after_reading 95 one_sensor) \<and>
   filter is_wait (new_events one_sensor (after_reading 95 one_sensor)) = []"
proof -
  have h: "deref idle_sensor 1 = Some (thermal_object_at THERMAL_STATUS_NORMAL False)"
    by (simp add: deref_def idle_sensor_def NULL_def)
  have h1: "deref one_sensor 1 = Some (thermal_object_at THERMAL_STATUS_NORMAL True)"
    by (simp add: deref_def one_sensor_def NULL_def)
  have a: "completed answers_later = None"
    by (simp add: answers_later_def)
  have w: "handle_DSM_MSGTYPE_WAKEUP answers_later 1 idle_sensor =
      Some (after_wakeup answers_later idle_sensor)"
    by (simp add: wakeup_defs run_defs)
  have e: "new_events idle_sensor (after_wakeup answers_later idle_sensor) =
      [Request_temperature 1, Wait 55 60 1]"
    by (simp add: wakeup_defs run_defs)
  have w2: "handle_DSM_MSGTYPE_WAKEUP (answers_at_once 95) 1 idle_sensor =
      Some (after_wakeup (answers_at_once 95) idle_sensor)"
    by (simp add: wakeup_defs run_defs)
  have e2: "new_events idle_sensor (after_wakeup (answers_at_once 95) idle_sensor) =
      [Request_temperature 1, Dbus_signal ''fatal'', Set_thermal_state True, Wait 2 5 1]"
    by (simp add: wakeup_defs run_defs)
  have g: "dsme_register_thermal_object refuses 1 idle_sensor =
      Some (after_registration refuses idle_sensor)"
    by (simp add: after_registration_def dsme_register_thermal_object_def wakeup_defs run_defs)
  have e3: "new_events idle_sensor (after_registration refuses idle_sensor) =
      [Request_temperature 1, Wait 55 60 1]"
    by (simp add: after_registration_def dsme_register_thermal_object_def wakeup_defs run_defs)
  have r: "receive_temperature_response None 1 95 one_sensor = Some (after_reading 95 one_sensor)"
    by (simp add: run_defs)
  have g4: "dsme_register_thermal_object_tuning (Some 2) answers_later 1 idle_sensor =
      Some (after_tuning_registration answers_later idle_sensor)"
    by (simp add: after_tuning_registration_def dsme_register_thermal_object_tuning_def
        thermal_object_copy_def wakeup_defs run_defs)
  have e4: "new_events idle_sensor (after_tuning_registration answers_later idle_sensor) =
      [Request_temperature 2, Wait 55 60 2]"
    "thermal_objects (after_tuning_registration answers_later idle_sensor) = [1, 2]"
    by (simp_all add: after_tuning_registration_def dsme_register_thermal_object_tuning_def
        thermal_object_copy_def wakeup_defs run_defs)
  note t = wait_on_every_poll_trigger [OF h, of answers_later]
  from t have "\<forall>alloc s'.
      dsme_register_thermal_object_tuning alloc answers_later 1 idle_sensor = Some s' \<longrightarrow>
      (\<exists>copy. alloc = Some copy \<and> copy \<noteq> NULL \<and> rearmed copy idle_sensor s')"
    by simp
  from this [rule_format, OF g4]
  have r4: "rearmed 2 idle_sensor (after_tuning_registration answers_later idle_sensor)"
    by simp
  from t a have "\<forall>copy. copy \<noteq> NULL \<longrightarrow>
      (\<exists>s'. dsme_register_thermal_object_tuning (Some copy) answers_later 1 idle_sensor = Some s' \<and>
         deref s' copy =
           Some ((thermal_object_at THERMAL_STATUS_NORMAL False)
             \<lparr>request_pending :=
                request_pending (thermal_object_at THERMAL_STATUS_NORMAL False) \<or>
                accepted answers_later\<rparr>))"
    by simp
  from this [rule_format, of 2] g4
  have d4: "deref (after_tuning_registration answers_later idle_sensor) 2 =
      Some (thermal_object_at THERMAL_STATUS_NORMAL True)"
    by (simp add: NULL_def thermal_object_at_def answers_later_def)
  from t
    wait_on_every_poll_trigger [OF h, of "answers_at_once 95"]
    wait_on_every_poll_trigger [OF h, of refuses]
    wait_on_every_poll_trigger [OF h1, of answers_later] h a w e w2 e2 g e3 r g4 e4 r4 d4
  show ?thesis by simp
qed

section \<open>Reloading the tuning file\<close>

































section \<open>Spawning the temp reaper\<close>

text \<open>
  C10. On a disk-space message the handler calls \<open>fork\<close> only when the mount path is the
  string ``/'' and no reaper process is running (\<open>reaper_pid\<close> is -1). A message with any
  other mount path, or one that arrives while a reaper runs, forks nothing and leaves the
  module's state as it was. A message for ``/'' with no reaper running forks, records
  the pid, and watches the child when the fork succeeded.
\<close>

theorem reaper_spawned_only_for_root:
  "(handle_DSM_MSGTYPE_DISK_SPACE pid mount_path s = Some s' \<and> Fork \<in> set (new_calls s s')
      \<longrightarrow> mount_path = ''/'' \<and> reaper_pid s = - 1) \<and>
   (mount_path \<noteq> ''/'' \<longrightarrow> handle_DSM_MSGTYPE_DISK_SPACE pid mount_path s = Some s) \<and>
   (reaper_pid s \<noteq> - 1 \<longrightarrow> handle_DSM_MSGTYPE_DISK_SPACE pid mount_path s = Some s) \<and>
   (reaper_pid s = - 1 \<and> pid \<noteq> 0 \<longrightarrow>
      handle_DSM_MSGTYPE_DISK_SPACE pid ''/'' s =
        Some (s\<lparr>reaper_pid := pid,
                calls := calls s @ Fork # (if pid \<noteq> - 1 then [Child_watch_add pid] else [])\<rparr>))"
  by (auto simp: handle_DSM_MSGTYPE_DISK_SPACE_def disk_space_running_out_def
      reaper_process_new_def new_calls_def Let_def split: if_splits option.splits)

text \<open>
  A message for ``/home'' with no reaper running, and one for ``/'' while process 4711
  runs, change nothing; a message for ``/'' with no reaper running forks.
\<close>

theorem reaper_spawned_only_for_root_witness:
  "handle_DSM_MSGTYPE_DISK_SPACE 4711 ''/home'' reaper_idle = Some reaper_idle \<and>
   handle_DSM_MSGTYPE_DISK_SPACE 4712 ''/'' reaper_running = Some reaper_running \<and>
   handle_DSM_MSGTYPE_DISK_SPACE 4711 ''/'' reaper_idle =
     Some \<lparr>reaper_pid = 4711, calls = [Fork, Child_watch_add 4711]\<rparr> \<and>
   Fork \<in> set (new_calls reaper_idle \<lparr>reaper_pid = 4711, calls = [Fork, Child_watch_add 4711]\<rparr>)"
  using reaper_spawned_only_for_root [of 4711 "''/home''" reaper_idle reaper_idle]
    reaper_spawned_only_for_root [of 4712 "''/''" reaper_running reaper_running]
    reaper_spawned_only_for_root [of 4711 "''/''" reaper_idle
      "\<lparr>reaper_pid = 4711, calls = [Fork, Child_watch_add 4711]\<rparr>"]
  by (simp add: reaper_idle_def reaper_running_def new_calls_def)

end
